theory Spec2Isabelle
  imports
    Complex_Main
    "HOL-Library.Char_ord"
    "HOL-Library.List_Lexorder"
    "HOL-Library.Option_ord"
    "HOL-Library.Product_Lexorder"
begin

section \<open>The stored tables\<close>

text \<open>
  The analytics class of \<^verbatim>\<open>persistence.py\<close> reads three tables through one
  shared cursor: \<^verbatim>\<open>rooms(id, name)\<close>, \<^verbatim>\<open>devices(id, type, room)\<close> and
  \<^verbatim>\<open>measurements(device, value, time_stamp)\<close>. A table is the list of its rows in
  insertion order. A device may have no room, so that column is nullable. Measurement
  values are the reals that the stored double-precision numbers denote (the two
  zeros are one value); comparison, minimum and maximum of such numbers are exact,
  and the average is computed in double-precision arithmetic as the engine does it,
  see below. The time stamp is the stored text.
\<close>

record room =
  r_id :: int
  r_name :: string

record device =
  d_id :: int
  d_type :: string
  d_room :: "int option"

record measurement =
  m_device :: int
  m_value :: real
  m_time_stamp :: string

record database =
  rooms :: "room list"
  devices :: "device list"
  measurements :: "measurement list"

text \<open>
  A value in a result row, as the Python driver hands it over: \<^verbatim>\<open>NULL\<close> is
  \<^verbatim>\<open>None\<close>, \<^verbatim>\<open>INTEGER\<close> an int, \<^verbatim>\<open>REAL\<close> a float, \<^verbatim>\<open>TEXT\<close> a str. A
  float is a finite number or one of the two infinities.
\<close>

datatype sqlval = SqlNull | SqlInt int | SqlReal real | SqlPosInf | SqlNegInf | SqlText string

type_synonym sqlrow = "sqlval list"

text \<open>
  \<^verbatim>\<open>SmartHousePersistence\<close>: the connection to the tables and the cursor, which
  holds the rows of the last statement that have not been fetched yet.
\<close>

record SmartHousePersistence =
  connection :: database
  cursor :: "sqlrow list"

text \<open>
  The analytics methods read one attribute of their \<^verbatim>\<open>Device\<close> argument,
  \<^verbatim>\<open>db_id\<close>. The class itself lives in another module; whatever else it carries is
  the extension part of the record.
\<close>

record Device =
  db_id :: int

text \<open>
  The exceptions: those of Python on rows and values, and those that
  \<^verbatim>\<open>cursor.execute\<close> raises for a query text that the engine or the driver refuses.
\<close>

datatype py_error =
  IndexError | TypeError | ValueError | OverflowError | OperationalError | ProgrammingError

section \<open>The cursor\<close>

text \<open>
  A \<^verbatim>\<open>SELECT\<close> statement denotes a function from the tables to result rows.
  \<^verbatim>\<open>cursor.execute\<close> of such a statement replaces the pending rows and touches
  nothing else; \<^verbatim>\<open>fetchone\<close> hands out the next pending row or \<^verbatim>\<open>None\<close>;
  \<^verbatim>\<open>fetchall\<close> hands out all of them.
\<close>

definition execute :: "(database \<Rightarrow> sqlrow list) \<Rightarrow> SmartHousePersistence \<Rightarrow> SmartHousePersistence" where
  "execute q p = p\<lparr>cursor := q (connection p)\<rparr>"

definition fetchone :: "SmartHousePersistence \<Rightarrow> sqlrow option \<times> SmartHousePersistence" where
  "fetchone p = (case cursor p of
       [] \<Rightarrow> (None, p)
     | r # rs \<Rightarrow> (Some r, p\<lparr>cursor := rs\<rparr>))"

definition fetchall :: "SmartHousePersistence \<Rightarrow> sqlrow list \<times> SmartHousePersistence" where
  "fetchall p = (cursor p, p\<lparr>cursor := []\<rparr>)"

section \<open>Python on result rows\<close>

text \<open>Indexing a tuple raises \<^verbatim>\<open>IndexError\<close> out of range.\<close>

definition py_index :: "sqlrow \<Rightarrow> nat \<Rightarrow> py_error + sqlval" where
  "py_index t i = (if i < length t then Inr (t ! i) else Inl IndexError)"

text \<open>A list comprehension stops at the first element whose expression raises.\<close>

fun py_list_comp :: "('a \<Rightarrow> py_error + 'b) \<Rightarrow> 'a list \<Rightarrow> py_error + 'b list" where
  "py_list_comp f [] = Inr []"
| "py_list_comp f (x # xs) =
     (case f x of
        Inl e \<Rightarrow> Inl e
      | Inr y \<Rightarrow> (case py_list_comp f xs of Inl e \<Rightarrow> Inl e | Inr ys \<Rightarrow> Inr (y # ys)))"

text \<open>
  Decimal digits. \<^verbatim>\<open>int(x)\<close> on a text of decimal digits gives the number (leading
  zeros are allowed); on \<^verbatim>\<open>None\<close> it raises \<^verbatim>\<open>TypeError\<close>, on an infinity
  \<^verbatim>\<open>OverflowError\<close>. Texts of other shapes are not produced by the queries below
  and are reported as \<^verbatim>\<open>ValueError\<close>. The formats \<^verbatim>\<open>%02d\<close> and \<^verbatim>\<open>%04d\<close> print
  a number in decimal, filled with zeros on the left up to the width.
\<close>

definition digit_char :: "nat \<Rightarrow> char" where
  "digit_char d = ''0123456789'' ! d"

definition digit_val :: "char \<Rightarrow> nat option" where
  "digit_val c = map_of (zip ''0123456789'' [0, 1, 2, 3, 4, 5, 6, 7, 8, 9]) c"

fun digits_val :: "nat \<Rightarrow> string \<Rightarrow> nat option" where
  "digits_val acc [] = Some acc"
| "digits_val acc (c # cs) =
     (case digit_val c of None \<Rightarrow> None | Some d \<Rightarrow> digits_val (acc * 10 + d) cs)"

fun decimal :: "nat \<Rightarrow> string" where
  "decimal n = (if n < 10 then [digit_char n] else decimal (n div 10) @ [digit_char (n mod 10)])"

declare decimal.simps [simp del]

definition pad :: "nat \<Rightarrow> nat \<Rightarrow> string" where
  "pad w n = replicate (w - length (decimal n)) (CHR ''0'') @ decimal n"

definition py_int :: "sqlval \<Rightarrow> py_error + int" where
  "py_int v = (case v of
       SqlNull \<Rightarrow> Inl TypeError
     | SqlInt i \<Rightarrow> Inr i
     | SqlReal x \<Rightarrow> Inr (if 0 \<le> x then \<lfloor>x\<rfloor> else \<lceil>x\<rceil>)
     | SqlPosInf \<Rightarrow> Inl OverflowError
     | SqlNegInf \<Rightarrow> Inl OverflowError
     | SqlText s \<Rightarrow>
         (if s = [] then Inl ValueError
          else case digits_val 0 s of None \<Rightarrow> Inl ValueError | Some n \<Rightarrow> Inr (int n)))"

text \<open>
  \<^verbatim>\<open>str(day)\<close> of a \<^verbatim>\<open>date\<close> is its ISO form \<^verbatim>\<open>YYYY-MM-DD\<close>.
\<close>

record py_date =
  date_year :: nat
  date_month :: nat
  date_day :: nat

definition str_date :: "py_date \<Rightarrow> string" where
  "str_date d = pad 4 (date_year d) @ ''-'' @ pad 2 (date_month d) @ ''-'' @ pad 2 (date_day d)"

section \<open>SQL expressions\<close>

text \<open>
  A comparison with \<^verbatim>\<open>NULL\<close> is \<^verbatim>\<open>NULL\<close>; \<^verbatim>\<open>AND\<close> is the three-valued
  conjunction; a \<^verbatim>\<open>WHERE\<close> clause keeps the rows whose condition is true.
\<close>

definition sql_eq :: "'a option \<Rightarrow> 'a option \<Rightarrow> bool option" where
  "sql_eq a b = (case (a, b) of (Some x, Some y) \<Rightarrow> Some (x = y) | _ \<Rightarrow> None)"

definition sql_gt :: "'a::linorder option \<Rightarrow> 'a option \<Rightarrow> bool option" where
  "sql_gt a b = (case (a, b) of (Some x, Some y) \<Rightarrow> Some (y < x) | _ \<Rightarrow> None)"

definition sql_ge :: "'a::linorder option \<Rightarrow> 'a option \<Rightarrow> bool option" where
  "sql_ge a b = (case (a, b) of (Some x, Some y) \<Rightarrow> Some (y \<le> x) | _ \<Rightarrow> None)"

definition sql_le :: "'a::linorder option \<Rightarrow> 'a option \<Rightarrow> bool option" where
  "sql_le a b = (case (a, b) of (Some x, Some y) \<Rightarrow> Some (x \<le> y) | _ \<Rightarrow> None)"

definition sql_and :: "bool option \<Rightarrow> bool option \<Rightarrow> bool option" where
  "sql_and a b =
     (if a = Some False \<or> b = Some False then Some False
      else if a = Some True \<and> b = Some True then Some True
      else None)"

definition sql_between :: "'a::linorder option \<Rightarrow> 'a option \<Rightarrow> 'a option \<Rightarrow> bool option" where
  "sql_between x lo hi = sql_and (sql_ge x lo) (sql_le x hi)"

definition sql_true :: "bool option \<Rightarrow> bool" where
  "sql_true c = (c = Some True)"

text \<open>
  \<^verbatim>\<open>min\<close> and \<^verbatim>\<open>max\<close> over the values of a group; over no rows they are
  \<^verbatim>\<open>NULL\<close>.
\<close>

definition sql_min :: "real list \<Rightarrow> real option" where
  "sql_min vs = (case vs of [] \<Rightarrow> None | v # ws \<Rightarrow> Some (fold min ws v))"

definition sql_max :: "real list \<Rightarrow> real option" where
  "sql_max vs = (case vs of [] \<Rightarrow> None | v # ws \<Rightarrow> Some (fold max ws v))"

definition real_val :: "real option \<Rightarrow> sqlval" where
  "real_val x = (case x of None \<Rightarrow> SqlNull | Some v \<Rightarrow> SqlReal v)"

definition text_val :: "string option \<Rightarrow> sqlval" where
  "text_val x = (case x of None \<Rightarrow> SqlNull | Some s \<Rightarrow> SqlText s)"

subsection \<open>Double-precision arithmetic and the average\<close>

text \<open>
  The engine computes \<^verbatim>\<open>avg\<close> in IEEE double precision. A double is a finite
  number \<open>m * 2 ^ e\<close> with \<open>\<bar>m\<bar> < 2 ^ 53\<close> and \<open>- 1074 \<le> e \<le> 971\<close>, or an infinity.
  Every operation gives the double nearest to the exact result, the one with even
  \<open>m\<close> when two are equally near, and an infinity from \<open>2 ^ 1024\<close> on.

  \<open>fl_pos x\<close> rounds \<open>x \<ge> 0\<close>: it scales \<open>x\<close> by a power of two into the range from
  \<open>2 ^ 52\<close> up to \<open>2 ^ 53\<close> (for small \<open>x\<close> as far as the least exponent allows),
  rounds to an integer and scales back. The power is found binary digit by binary
  digit, from the list \<open>shifts\<close>.
\<close>

datatype double = Fin real | PInf | NInf

definition round_half_even :: "real \<Rightarrow> int" where
  "round_half_even y =
     (let f = \<lfloor>y\<rfloor>; d = y - of_int f
      in if d < 1 / 2 then f else if 1 / 2 < d then f + 1 else if even f then f else f + 1)"

fun shift_up :: "nat list \<Rightarrow> real \<Rightarrow> int \<Rightarrow> real \<times> int" where
  "shift_up [] x e = (x, e)"
| "shift_up (k # ks) x e =
     (if x * 2 ^ k < 2 ^ 53 \<and> - 1074 \<le> e - int k
      then shift_up ks (x * 2 ^ k) (e - int k) else shift_up ks x e)"

fun shift_down :: "nat list \<Rightarrow> real \<Rightarrow> int \<Rightarrow> real \<times> int" where
  "shift_down [] x e = (x, e)"
| "shift_down (k # ks) x e =
     (if 2 ^ 52 \<le> x / 2 ^ k
      then shift_down ks (x / 2 ^ k) (e + int k) else shift_down ks x e)"

definition shifts :: "nat list" where
  "shifts = [1024, 512, 256, 128, 64, 32, 16, 8, 4, 2, 1]"

definition scaled :: "int \<Rightarrow> int \<Rightarrow> real" where
  "scaled m e = (if 0 \<le> e then of_int m * 2 ^ nat e else of_int m / 2 ^ nat (- e))"

definition fl_pos :: "real \<Rightarrow> double" where
  "fl_pos x =
     (let (y, e) = (if 2 ^ 53 \<le> x then shift_down shifts x 0 else shift_up shifts x 0);
          v = scaled (round_half_even y) e
      in if 2 ^ 1024 \<le> v then PInf else Fin v)"

definition fl :: "real \<Rightarrow> double" where
  "fl x = (if x < 0
           then (case fl_pos (- x) of Fin v \<Rightarrow> Fin (- v) | _ \<Rightarrow> NInf)
           else fl_pos x)"

text \<open>
  Sum and quotient of a double and a finite number. \<open>fin_add\<close> is the sum when it is
  finite and \<open>None\<close> when it is an infinity or no number.
\<close>

definition d_add :: "double \<Rightarrow> real \<Rightarrow> double" where
  "d_add s r = (case s of Fin a \<Rightarrow> fl (a + r) | PInf \<Rightarrow> PInf | NInf \<Rightarrow> NInf)"

definition d_div :: "double \<Rightarrow> nat \<Rightarrow> double" where
  "d_div s n = (case s of Fin a \<Rightarrow> fl (a / real n) | PInf \<Rightarrow> PInf | NInf \<Rightarrow> NInf)"

definition fin_add :: "double \<Rightarrow> real \<Rightarrow> real option" where
  "fin_add s r = (case d_add s r of Fin z \<Rightarrow> Some z | _ \<Rightarrow> None)"

text \<open>
  The engine's \<^verbatim>\<open>avg\<close> over \<^verbatim>\<open>REAL\<close> values keeps a running sum \<open>s\<close> and a
  running error term. One step with the value \<open>r\<close> is, in the engine's C,
  \<^verbatim>\<open>t = s + r; if (fabs(s) > fabs(r)) err += (s - t) + r; else err += (r - t) + s;
  s = t;\<close>. At the end the error term is added to the sum unless it is an infinity or
  no number, and the result is divided by the count. The error term is \<open>None\<close> here
  once it is an infinity or no number; it then stays so. Over no rows the average is
  \<^verbatim>\<open>NULL\<close>.
\<close>

definition kbn_step :: "double \<times> real option \<Rightarrow> real \<Rightarrow> double \<times> real option" where
  "kbn_step st r =
     (case st of (s, err) \<Rightarrow>
        (let t = d_add s r;
             c = (case (s, t) of
                    (Fin a, Fin b) \<Rightarrow>
                      (if \<bar>r\<bar> < \<bar>a\<bar> then fin_add (fl (a - b)) r else fin_add (fl (r - b)) a)
                  | _ \<Rightarrow> None)
         in (t, case (err, c) of (Some e, Some x) \<Rightarrow> fin_add (Fin e) x | _ \<Rightarrow> None)))"

definition sql_avg :: "real list \<Rightarrow> double option" where
  "sql_avg vs =
     (if vs = [] then None
      else (case fold (\<lambda>r st. kbn_step st r) vs (Fin 0, Some 0) of
              (s, err) \<Rightarrow>
                Some (d_div (case err of Some e \<Rightarrow> d_add s e | None \<Rightarrow> s) (length vs))))"

definition double_val :: "double option \<Rightarrow> sqlval" where
  "double_val x = (case x of
       None \<Rightarrow> SqlNull
     | Some (Fin v) \<Rightarrow> SqlReal v
     | Some PInf \<Rightarrow> SqlPosInf
     | Some NInf \<Rightarrow> SqlNegInf)"

text \<open>\<^verbatim>\<open>value > threshold\<close> for a stored value and an average.\<close>

definition sql_gt_avg :: "real \<Rightarrow> double option \<Rightarrow> bool option" where
  "sql_gt_avg v t = (case t of
       None \<Rightarrow> None
     | Some (Fin a) \<Rightarrow> Some (a < v)
     | Some PInf \<Rightarrow> Some False
     | Some NInf \<Rightarrow> Some True)"

subsection \<open>Date and time functions\<close>

text \<open>
  The date and time functions of the database engine first read their argument as a
  time value and give \<^verbatim>\<open>NULL\<close> when the text is none. That reader belongs to the
  engine, not to this repository, and is a parameter \<open>tv\<close> of everything below: it
  maps a text to the date \<open>(year, month, day)\<close> and the time \<open>(hour, minute, second)\<close>
  it denotes. \<^verbatim>\<open>DATETIME\<close> prints both in the fixed-width form
  \<^verbatim>\<open>YYYY-MM-DD HH:MM:SS\<close>, whose text order is the lexicographic order of the six
  numbers; \<^verbatim>\<open>DATE\<close> prints the date alone; \<^verbatim>\<open>STRFTIME('%H', ...)\<close> prints the hour
  in the format \<^verbatim>\<open>%02d\<close>.
\<close>

type_synonym timevalue = "(nat \<times> nat \<times> nat) \<times> (nat \<times> nat \<times> nat)"

type_synonym time_reader = "string \<Rightarrow> timevalue option"

definition DATETIME :: "time_reader \<Rightarrow> string \<Rightarrow> timevalue option" where
  "DATETIME tv s = tv s"

definition DATE :: "time_reader \<Rightarrow> string \<Rightarrow> (nat \<times> nat \<times> nat) option" where
  "DATE tv s = map_option fst (tv s)"

definition hour_of :: "timevalue \<Rightarrow> nat" where
  "hour_of t = fst (snd t)"

definition STRFTIME_H :: "timevalue option \<Rightarrow> string option" where
  "STRFTIME_H t = map_option (\<lambda>x. pad 2 (hour_of x)) t"

section \<open>The statements\<close>

subsection \<open>Sorting and joining\<close>

text \<open>
  \<^verbatim>\<open>ORDER BY key DESC\<close>: rows with a larger key come first, \<^verbatim>\<open>NULL\<close> keys (the
  least element of the option order) last; rows with equal keys keep the order of
  the table, a choice the engine leaves open.
\<close>

fun insort_desc :: "('a \<Rightarrow> 'k::linorder) \<Rightarrow> 'a \<Rightarrow> 'a list \<Rightarrow> 'a list" where
  "insort_desc key x [] = [x]"
| "insort_desc key x (y # ys) =
     (if key y < key x then x # y # ys else y # insort_desc key x ys)"

definition order_by_desc :: "('a \<Rightarrow> 'k::linorder) \<Rightarrow> 'a list \<Rightarrow> 'a list" where
  "order_by_desc key xs = fold (insort_desc key) xs []"

text \<open>
  \<^verbatim>\<open>measurements m INNER JOIN devices d ON d.id = m.device INNER JOIN rooms r ON
  r.id = d.room\<close>: every measurement with every device of that id and every room of
  that device. A device without a room joins with no room.
\<close>

type_synonym joined_row = "measurement \<times> device \<times> room"

definition joined :: "database \<Rightarrow> joined_row list" where
  "joined db =
     [(m, d, r).
        m \<leftarrow> measurements db,
        d \<leftarrow> devices db, d_id d = m_device m,
        r \<leftarrow> rooms db, sql_true (sql_eq (Some (r_id r)) (d_room d))]"

subsection \<open>Most recent reading\<close>

text \<open>
  \<^verbatim>\<open>SELECT value FROM measurements WHERE device = {sensor.db_id}
  ORDER BY datetime(time_stamp) DESC limit 1;\<close>
\<close>

definition most_recent_query :: "time_reader \<Rightarrow> int \<Rightarrow> database \<Rightarrow> sqlrow list" where
  "most_recent_query tv dev db =
     map (\<lambda>m. [SqlReal (m_value m)])
       (take 1
          (order_by_desc (\<lambda>m. DATETIME tv (m_time_stamp m))
             (filter (\<lambda>m. m_device m = dev) (measurements db))))"

definition get_most_recent_sensor_reading ::
  "time_reader \<Rightarrow> 'a Device_scheme \<Rightarrow> SmartHousePersistence
     \<Rightarrow> (py_error + sqlval) \<times> SmartHousePersistence" where
  "get_most_recent_sensor_reading tv sensor self =
     (let p1 = execute (most_recent_query tv (db_id sensor)) self;
          (result, p2) = fetchone p1
      in (case result of
            None \<Rightarrow> Inr SqlNull
          | Some row \<Rightarrow> if row \<noteq> [] then py_index row 0 else Inr SqlNull,
          p2))"

subsection \<open>Coldest room\<close>

text \<open>
  \<^verbatim>\<open>SELECT r.name, min(value) FROM measurements m inner join devices d on
  d.id = m.device inner JOIN rooms r on r.id = d.room\<close>: an aggregate without
  \<^verbatim>\<open>GROUP BY\<close> gives exactly one row, also over no input, where both columns are
  \<^verbatim>\<open>NULL\<close>. With \<^verbatim>\<open>min\<close>, the bare column \<^verbatim>\<open>r.name\<close> is taken from a joined row
  that holds the minimum; among several such rows the first one met is kept here.
\<close>

definition min_row :: "joined_row \<Rightarrow> joined_row list \<Rightarrow> joined_row" where
  "min_row x xs = fold (\<lambda>y best. if m_value (fst y) < m_value (fst best) then y else best) xs x"

definition coldest_room_query :: "database \<Rightarrow> sqlrow list" where
  "coldest_room_query db =
     (case joined db of
        [] \<Rightarrow> [[SqlNull, SqlNull]]
      | x # xs \<Rightarrow>
          (let (m, d, r) = min_row x xs
           in [[SqlText (r_name r), SqlReal (m_value m)]]))"

definition get_coldest_room ::
  "SmartHousePersistence \<Rightarrow> (py_error + sqlval) \<times> SmartHousePersistence" where
  "get_coldest_room self =
     (let p1 = execute coldest_room_query self;
          (result, p2) = fetchone p1
      in (case result of
            None \<Rightarrow> Inr SqlNull
          | Some row \<Rightarrow> if row \<noteq> [] then py_index row 0 else Inr SqlNull,
          p2))"

subsection \<open>Readings in a time span\<close>

text \<open>
  \<^verbatim>\<open>SELECT value FROM measurements m WHERE device = {sensor.db_id} AND
  DATETIME(time_stamp) BETWEEN DATETIME('{from_ts}') AND DATETIME('{to_ts}')\<close>.
  The arguments \<open>from_ts\<close> and \<open>to_ts\<close> are the texts that the f-string puts between
  the quotes.
\<close>

definition timespan_query :: "time_reader \<Rightarrow> int \<Rightarrow> string \<Rightarrow> string \<Rightarrow> database \<Rightarrow> sqlrow list" where
  "timespan_query tv dev from_ts to_ts db =
     map (\<lambda>m. [SqlReal (m_value m)])
       (filter
          (\<lambda>m. sql_true
             (sql_and (Some (m_device m = dev))
                (sql_between (DATETIME tv (m_time_stamp m))
                   (DATETIME tv from_ts) (DATETIME tv to_ts))))
          (measurements db))"

definition get_sensor_readings_in_timespan ::
  "time_reader \<Rightarrow> 'a Device_scheme \<Rightarrow> string \<Rightarrow> string \<Rightarrow> SmartHousePersistence
     \<Rightarrow> (py_error + sqlval list) \<times> SmartHousePersistence" where
  "get_sensor_readings_in_timespan tv sensor from_ts to_ts self =
     (let p1 = execute (timespan_query tv (db_id sensor) from_ts to_ts) self;
          (results, p2) = fetchall p1
      in (py_list_comp (\<lambda>t. py_index t 0) results, p2))"

subsection \<open>Temperature per room\<close>

text \<open>
  \<^verbatim>\<open>SELECT r.name, min(value), max(value), avg(value) FROM measurements m
  INNER JOIN devices d ON m.device = d.id INNER JOIN rooms r ON r.id = d.room
  WHERE d.type = 'Temperatursensor' GROUP BY r.name;\<close>: one result row for each
  distinct room name among the selected rows, in the order of the names.
\<close>

definition temperature_rows :: "database \<Rightarrow> joined_row list" where
  "temperature_rows db =
     filter (\<lambda>(m, d, r). d_type d = ''Temperatursensor'') (joined db)"

definition group_values :: "joined_row list \<Rightarrow> string \<Rightarrow> real list" where
  "group_values rows n = map (\<lambda>(m, d, r). m_value m) (filter (\<lambda>(m, d, r). r_name r = n) rows)"

definition describe_query :: "database \<Rightarrow> sqlrow list" where
  "describe_query db =
     (let rows = temperature_rows db
      in map (\<lambda>n. [SqlText n,
                    real_val (sql_min (group_values rows n)),
                    real_val (sql_max (group_values rows n)),
                    double_val (sql_avg (group_values rows n))])
           (sort (remdups (map (\<lambda>(m, d, r). r_name r) rows))))"

text \<open>
  The loop \<^verbatim>\<open>for row in rows: result[row[0]] = (row[1], row[2], row[3])\<close>; the
  right-hand side is evaluated before the key.
\<close>

type_synonym description = "sqlval \<rightharpoonup> sqlval \<times> sqlval \<times> sqlval"

fun describe_loop :: "sqlrow list \<Rightarrow> description \<Rightarrow> py_error + description" where
  "describe_loop [] result = Inr result"
| "describe_loop (row # rows) result =
     (case py_index row 1 of Inl e \<Rightarrow> Inl e | Inr a \<Rightarrow>
       (case py_index row 2 of Inl e \<Rightarrow> Inl e | Inr b \<Rightarrow>
         (case py_index row 3 of Inl e \<Rightarrow> Inl e | Inr c \<Rightarrow>
           (case py_index row 0 of Inl e \<Rightarrow> Inl e | Inr k \<Rightarrow>
              describe_loop rows (result(k \<mapsto> (a, b, c)))))))"

definition describe_temperature_in_rooms ::
  "SmartHousePersistence \<Rightarrow> (py_error + description) \<times> SmartHousePersistence" where
  "describe_temperature_in_rooms self =
     (let p1 = execute describe_query self;
          (rows, p2) = fetchall p1
      in (describe_loop rows Map.empty, p2))"

subsection \<open>Hours with humidity above the average\<close>

text \<open>
  The scalar subquery \<^verbatim>\<open>(SELECT AVG(value) FROM measurements m WHERE m.device = 21
  AND DATE(time_stamp) = DATE('{day}'))\<close>; \<open>day\<close> is the text that the f-string puts
  between the quotes.
\<close>

definition humidity_average :: "time_reader \<Rightarrow> string \<Rightarrow> database \<Rightarrow> double option" where
  "humidity_average tv day db =
     sql_avg
       (map m_value
          (filter
             (\<lambda>m. sql_true
                (sql_and (Some (m_device m = 21))
                   (sql_eq (DATE tv (m_time_stamp m)) (DATE tv day))))
             (measurements db)))"

text \<open>
  The \<^verbatim>\<open>WHERE\<close> clause: \<^verbatim>\<open>r.name = '...' AND d.type = 'Fuktighetssensor'
  AND DATE(time_stamp) = DATE('{day}') AND m.value > (SELECT AVG ...)\<close>, where
  \<open>name\<close> is the content of the string literal after \<^verbatim>\<open>r.name =\<close>.
\<close>

definition humidity_where :: "time_reader \<Rightarrow> string \<Rightarrow> string \<Rightarrow> database \<Rightarrow> joined_row \<Rightarrow> bool option" where
  "humidity_where tv name day db row =
     (case row of (m, d, r) \<Rightarrow>
        sql_and
          (sql_and
             (sql_and (Some (r_name r = name))
                (Some (d_type d = ''Fuktighetssensor'')))
             (sql_eq (DATE tv (m_time_stamp m)) (DATE tv day)))
          (sql_gt_avg (m_value m) (humidity_average tv day db)))"

text \<open>
  \<^verbatim>\<open>SELECT STRFTIME('%H', DATETIME(m.time_stamp)) AS hours ... GROUP BY hours
  HAVING COUNT(m.value) > 3;\<close>
\<close>

definition hours :: "time_reader \<Rightarrow> joined_row \<Rightarrow> string option" where
  "hours tv row = (case row of (m, d, r) \<Rightarrow> STRFTIME_H (DATETIME tv (m_time_stamp m)))"

definition humidity_query :: "time_reader \<Rightarrow> string \<Rightarrow> string \<Rightarrow> database \<Rightarrow> sqlrow list" where
  "humidity_query tv name day db =
     (let rows = filter (\<lambda>row. sql_true (humidity_where tv name day db row)) (joined db)
      in map (\<lambda>k. [text_val k])
           (filter (\<lambda>k. 3 < length (filter (\<lambda>row. hours tv row = k) rows))
              (sort (remdups (map (hours tv) rows)))))"

text \<open>
  The f-string puts \<open>room_name\<close> between two quote characters, so what the statement
  is depends on the characters of the name. The engine reads a string literal from
  the opening quote: two quotes in a row stand for one quote inside the literal, a
  single quote ends it. A name without a quote is the whole literal, ended by the
  quote of the template, and the statement is the one above with that name.

  When the literal ends inside the name, the rest of the name is SQL text. After
  blanks, \<^verbatim>\<open>--\<close> starts a comment up to the end of the line: without a line feed in
  the rest of the name it takes the quote of the template with it, and the statement
  is again the one above, with the literal read so far. \<^verbatim>\<open>/*\<close> starts a comment
  up to the next \<^verbatim>\<open>*/\<close> or else the end of the text; the template and the text of a
  date hold no \<^verbatim>\<open>*/\<close>, so without one in the rest of the name the statement ends
  after the literal: \<^verbatim>\<open>SELECT STRFTIME(...) AS hours FROM ... WHERE r.name = '...'\<close>.
  Any other name gives a text that is not resolved here (\<open>Foreign\<close>), also a name
  with the character 0, which the driver refuses.
\<close>

datatype statement = Template string | Cut string | Foreign

definition sql_space :: "char \<Rightarrow> bool" where
  "sql_space c = (c \<in> set [CHR 0x20, CHR 0x09, CHR 0x0A, CHR 0x0C, CHR 0x0D])"

fun has_pair :: "char \<Rightarrow> char \<Rightarrow> string \<Rightarrow> bool" where
  "has_pair a b (x # y # zs) = ((x = a \<and> y = b) \<or> has_pair a b (y # zs))"
| "has_pair a b zs = False"

definition after_literal :: "string \<Rightarrow> string \<Rightarrow> statement" where
  "after_literal s rest =
     (let r = dropWhile sql_space rest
      in if take 2 r = ''--'' \<and> CHR 0x0A \<notin> set (drop 2 r) then Template s
         else if take 2 r = ''/*'' \<and> \<not> has_pair (CHR ''*'') (CHR ''/'') (drop 2 r) then Cut s
         else Foreign)"

fun scan_literal :: "string \<Rightarrow> string \<Rightarrow> statement" where
  "scan_literal acc [] = Template acc"
| "scan_literal acc [c] = (if c = CHR 0x27 then Foreign else Template (acc @ [c]))"
| "scan_literal acc (c # c' # cs) =
     (if c \<noteq> CHR 0x27 then scan_literal (acc @ [c]) (c' # cs)
      else if c' = CHR 0x27 then scan_literal (acc @ [c]) cs
      else after_literal acc (c' # cs))"

definition name_slot :: "string \<Rightarrow> statement" where
  "name_slot room_name = (if CHR 0x00 \<in> set room_name then Foreign else scan_literal [] room_name)"

text \<open>The statement that ends after the literal.\<close>

definition cut_query :: "time_reader \<Rightarrow> string \<Rightarrow> database \<Rightarrow> sqlrow list" where
  "cut_query tv name db =
     map (\<lambda>row. [text_val (hours tv row)]) (filter (\<lambda>(m, d, r). r_name r = name) (joined db))"

text \<open>
  What \<^verbatim>\<open>cursor.execute\<close> of the query text gives: rows, or an exception. What the
  engine makes of a text that is not resolved above is the parameter \<open>foreign\<close>. Such
  a text still is one statement that starts with \<^verbatim>\<open>SELECT\<close> (the driver refuses
  more than one statement), so it gives rows or an exception and writes nothing.
\<close>

type_synonym foreign_text = "string \<Rightarrow> py_date \<Rightarrow> database \<Rightarrow> py_error + sqlrow list"

definition humidity_statement ::
  "time_reader \<Rightarrow> foreign_text \<Rightarrow> string \<Rightarrow> py_date \<Rightarrow> database \<Rightarrow> py_error + sqlrow list" where
  "humidity_statement tv foreign room_name day db =
     (case name_slot room_name of
        Template name \<Rightarrow> Inr (humidity_query tv name (str_date day) db)
      | Cut name \<Rightarrow> Inr (cut_query tv name db)
      | Foreign \<Rightarrow> foreign room_name day db)"

definition get_hours_when_humidity_above_average ::
  "time_reader \<Rightarrow> foreign_text \<Rightarrow> string \<Rightarrow> py_date \<Rightarrow> SmartHousePersistence
     \<Rightarrow> (py_error + int list) \<times> SmartHousePersistence" where
  "get_hours_when_humidity_above_average tv foreign room_name day self =
     (case humidity_statement tv foreign room_name day (connection self) of
        Inl e \<Rightarrow> (Inl e, self)
      | Inr result \<Rightarrow>
          (let p1 = execute (\<lambda>db. result) self;
               (rows, p2) = fetchall p1
           in (py_list_comp (\<lambda>r. case py_index r 0 of Inl e \<Rightarrow> Inl e | Inr v \<Rightarrow> py_int v) rows,
               p2)))"

text \<open>A name that is the whole literal.\<close>

definition plain_literal :: "string \<Rightarrow> bool" where
  "plain_literal s = (CHR 0x27 \<notin> set s \<and> CHR 0x00 \<notin> set s)"

section \<open>A small house\<close>

text \<open>
  Concrete tables for the instances below: a kitchen with a temperature sensor, a
  bathroom with the humidity sensor number 21, and a device without a room. The time
  reader is given on the texts that occur, with the values the engine reads there;
  two of them are written with the separator \<^verbatim>\<open>T\<close>, which sorts after the blank.
\<close>

definition demo_tv :: time_reader where
  "demo_tv = map_of
     [(''2024-03-01'', ((2024, 3, 1), (0, 0, 0))),
      (''2024-03-01 08:00:00'', ((2024, 3, 1), (8, 0, 0))),
      (''2024-03-01T09:30:00'', ((2024, 3, 1), (9, 30, 0))),
      (''2024-03-01 09:45:00'', ((2024, 3, 1), (9, 45, 0))),
      (''2024-03-01 10:00:00'', ((2024, 3, 1), (10, 0, 0))),
      (''2024-03-01 10:20:00'', ((2024, 3, 1), (10, 20, 0))),
      (''2024-03-01T11:00:00'', ((2024, 3, 1), (11, 0, 0))),
      (''2024-03-02 07:00:00'', ((2024, 3, 2), (7, 0, 0)))]"

definition demo_rooms :: "room list" where
  "demo_rooms =
     [\<lparr>r_id = 1, r_name = ''Kitchen''\<rparr>,
      \<lparr>r_id = 2, r_name = ''Bathroom''\<rparr>]"

definition demo_devices :: "device list" where
  "demo_devices =
     [\<lparr>d_id = 3, d_type = ''Temperatursensor'', d_room = Some 1\<rparr>,
      \<lparr>d_id = 21, d_type = ''Fuktighetssensor'', d_room = Some 2\<rparr>,
      \<lparr>d_id = 7, d_type = ''Temperatursensor'', d_room = None\<rparr>]"

definition demo_measurements :: "measurement list" where
  "demo_measurements =
     [\<lparr>m_device = 3, m_value = 22, m_time_stamp = ''2024-03-01 10:00:00''\<rparr>,
      \<lparr>m_device = 3, m_value = 18, m_time_stamp = ''2024-03-01T09:30:00''\<rparr>,
      \<lparr>m_device = 21, m_value = 5, m_time_stamp = ''2024-03-01 08:00:00''\<rparr>,
      \<lparr>m_device = 21, m_value = 64, m_time_stamp = ''2024-03-01T09:30:00''\<rparr>,
      \<lparr>m_device = 21, m_value = 65, m_time_stamp = ''2024-03-01 09:45:00''\<rparr>,
      \<lparr>m_device = 21, m_value = 66, m_time_stamp = ''2024-03-01 09:45:00''\<rparr>,
      \<lparr>m_device = 21, m_value = 67, m_time_stamp = ''2024-03-01T09:30:00''\<rparr>,
      \<lparr>m_device = 21, m_value = 70, m_time_stamp = ''2024-03-01 10:00:00''\<rparr>,
      \<lparr>m_device = 21, m_value = 71, m_time_stamp = ''2024-03-01 10:20:00''\<rparr>,
      \<lparr>m_device = 21, m_value = 72, m_time_stamp = ''2024-03-01 10:20:00''\<rparr>,
      \<lparr>m_device = 7, m_value = 2, m_time_stamp = ''2024-03-02 07:00:00''\<rparr>]"

definition demo_db :: database where
  "demo_db = \<lparr>rooms = demo_rooms, devices = demo_devices, measurements = demo_measurements\<rparr>"

definition demo_house :: SmartHousePersistence where
  "demo_house = \<lparr>connection = demo_db, cursor = []\<rparr>"

definition empty_house :: SmartHousePersistence where
  "empty_house = \<lparr>connection = \<lparr>rooms = demo_rooms, devices = demo_devices, measurements = []\<rparr>,
                   cursor = []\<rparr>"

definition demo_sensor :: Device where
  "demo_sensor = \<lparr>db_id = 3\<rparr>"

definition humidity_sensor :: Device where
  "humidity_sensor = \<lparr>db_id = 21\<rparr>"

definition demo_day :: py_date where
  "demo_day = \<lparr>date_year = 2024, date_month = 3, date_day = 1\<rparr>"

text \<open>
  Two room names with a quote: \<^verbatim>\<open>Bathroom' --\<close> and \<^verbatim>\<open>Bathroom' /*\<close>. Neither
  leads to a text that is not resolved, so the parameter for such texts can be
  anything for them; here it refuses every text.
\<close>

definition commented_name :: string where
  "commented_name = ''Bathroom'' @ [CHR 0x27] @ '' --''"

definition cutting_name :: string where
  "cutting_name = ''Bathroom'' @ [CHR 0x27] @ '' /*''"

definition refuse :: foreign_text where
  "refuse room_name day db = Inl OperationalError"

text \<open>
  A kitchen whose temperature sensor has three measurements of the double nearest to
  one tenth.
\<close>

definition tenth :: real where
  "tenth = 3602879701896397 / 36028797018963968"

definition tenth_db :: database where
  "tenth_db =
     \<lparr>rooms = [\<lparr>r_id = 1, r_name = ''Kitchen''\<rparr>],
      devices = [\<lparr>d_id = 3, d_type = ''Temperatursensor'', d_room = Some 1\<rparr>],
      measurements =
        [\<lparr>m_device = 3, m_value = tenth, m_time_stamp = ''2024-03-01 08:00:00''\<rparr>,
         \<lparr>m_device = 3, m_value = tenth, m_time_stamp = ''2024-03-01 09:45:00''\<rparr>,
         \<lparr>m_device = 3, m_value = tenth, m_time_stamp = ''2024-03-01 10:00:00''\<rparr>]\<rparr>"

definition tenth_house :: SmartHousePersistence where
  "tenth_house = \<lparr>connection = tenth_db, cursor = []\<rparr>"

section \<open>Auxiliary facts\<close>

subsection \<open>Cursor\<close>

lemma execute_connection: "connection (execute q p) = connection p"
  by (simp add: execute_def)

lemma fetchone_connection: "connection (snd (fetchone p)) = connection p"
  by (simp add: fetchone_def split: list.splits)

lemma fetchall_connection: "connection (snd (fetchall p)) = connection p"
  by (simp add: fetchall_def)

lemma fetchone_execute:
  "fst (fetchone (execute q p)) = (case q (connection p) of [] \<Rightarrow> None | r # rs \<Rightarrow> Some r)"
  by (simp add: fetchone_def execute_def split: list.splits)

lemma fetchall_execute: "fst (fetchall (execute q p)) = q (connection p)"
  by (simp add: fetchall_def execute_def)

lemma py_list_comp_index0:
  "py_list_comp (\<lambda>t. py_index t 0) (map (\<lambda>x. [f x]) xs) = Inr (map f xs)"
  by (induction xs) (auto simp: py_index_def)

subsection \<open>Descending order\<close>

lemma set_insort_desc: "set (insort_desc key x ys) = insert x (set ys)"
  by (induction ys) auto

lemma sorted_insort_desc:
  "sorted_wrt (\<lambda>a b. key b \<le> key a) ys \<Longrightarrow> sorted_wrt (\<lambda>a b. key b \<le> key a) (insort_desc key x ys)"
  by (induction ys) (auto simp: set_insort_desc)

lemma set_fold_insort_desc: "set (fold (insort_desc key) xs acc) = set xs \<union> set acc"
  by (induction xs arbitrary: acc) (auto simp: set_insort_desc)

lemma sorted_fold_insort_desc:
  "sorted_wrt (\<lambda>a b. key b \<le> key a) acc \<Longrightarrow>
   sorted_wrt (\<lambda>a b. key b \<le> key a) (fold (insort_desc key) xs acc)"
  by (induction xs arbitrary: acc) (auto simp: sorted_insort_desc)

lemma set_order_by_desc: "set (order_by_desc key xs) = set xs"
  by (simp add: order_by_desc_def set_fold_insort_desc)

lemma order_by_desc_Nil: "order_by_desc key xs = [] \<longleftrightarrow> xs = []"
  using set_order_by_desc [of key xs] by (metis set_empty)

lemma order_by_desc_head:
  assumes "order_by_desc key xs = y # ys"
  shows "y \<in> set xs \<and> (\<forall>x \<in> set xs. key x \<le> key y)"
proof -
  have s: "sorted_wrt (\<lambda>a b. key b \<le> key a) (y # ys)"
    using sorted_fold_insort_desc [of key "[]" xs] assms by (simp add: order_by_desc_def)
  have e: "set xs = insert y (set ys)"
    using set_order_by_desc [of key xs] assms by simp
  show ?thesis using s e by auto
qed

subsection \<open>Join, minimum, conditions\<close>

lemma joined_iff:
  "(m, d, r) \<in> set (joined db) \<longleftrightarrow>
     m \<in> set (measurements db) \<and> d \<in> set (devices db) \<and> r \<in> set (rooms db) \<and>
     d_id d = m_device m \<and> d_room d = Some (r_id r)"
  by (auto simp: joined_def sql_true_def sql_eq_def split: option.splits)

lemma min_row_fold:
  "fold (\<lambda>y best. if m_value (fst y) < m_value (fst best) then y else best) xs x \<in> set (x # xs) \<and>
   (\<forall>y \<in> set (x # xs). m_value (fst (fold (\<lambda>y best. if m_value (fst y) < m_value (fst best) then y else best) xs x)) \<le> m_value (fst y))"
proof (induction xs arbitrary: x)
  case Nil
  then show ?case by simp
next
  case (Cons a xs)
  show ?case
    using Cons.IH [of a] Cons.IH [of x] by (auto simp: not_less)
qed

lemma min_row_least:
  "min_row x xs \<in> set (x # xs) \<and> (\<forall>y \<in> set (x # xs). m_value (fst (min_row x xs)) \<le> m_value (fst y))"
  unfolding min_row_def by (rule min_row_fold)

lemma sql_between_true:
  "sql_true (sql_and (Some c) (sql_between x lo hi)) \<longleftrightarrow>
     c \<and> (\<exists>t a b. x = Some t \<and> lo = Some a \<and> hi = Some b \<and> a \<le> t \<and> t \<le> b)"
  by (auto simp: sql_true_def sql_and_def sql_between_def sql_ge_def sql_le_def split: option.splits)

subsection \<open>The small house, evaluated\<close>

lemmas demo_defs = demo_house_def demo_db_def demo_rooms_def demo_devices_def
  demo_measurements_def demo_sensor_def humidity_sensor_def empty_house_def

lemma demo_joined:
  "joined demo_db =
     [(\<lparr>m_device = 3, m_value = 22, m_time_stamp = ''2024-03-01 10:00:00''\<rparr>,
       \<lparr>d_id = 3, d_type = ''Temperatursensor'', d_room = Some 1\<rparr>, \<lparr>r_id = 1, r_name = ''Kitchen''\<rparr>),
      (\<lparr>m_device = 3, m_value = 18, m_time_stamp = ''2024-03-01T09:30:00''\<rparr>,
       \<lparr>d_id = 3, d_type = ''Temperatursensor'', d_room = Some 1\<rparr>, \<lparr>r_id = 1, r_name = ''Kitchen''\<rparr>),
      (\<lparr>m_device = 21, m_value = 5, m_time_stamp = ''2024-03-01 08:00:00''\<rparr>,
       \<lparr>d_id = 21, d_type = ''Fuktighetssensor'', d_room = Some 2\<rparr>, \<lparr>r_id = 2, r_name = ''Bathroom''\<rparr>),
      (\<lparr>m_device = 21, m_value = 64, m_time_stamp = ''2024-03-01T09:30:00''\<rparr>,
       \<lparr>d_id = 21, d_type = ''Fuktighetssensor'', d_room = Some 2\<rparr>, \<lparr>r_id = 2, r_name = ''Bathroom''\<rparr>),
      (\<lparr>m_device = 21, m_value = 65, m_time_stamp = ''2024-03-01 09:45:00''\<rparr>,
       \<lparr>d_id = 21, d_type = ''Fuktighetssensor'', d_room = Some 2\<rparr>, \<lparr>r_id = 2, r_name = ''Bathroom''\<rparr>),
      (\<lparr>m_device = 21, m_value = 66, m_time_stamp = ''2024-03-01 09:45:00''\<rparr>,
       \<lparr>d_id = 21, d_type = ''Fuktighetssensor'', d_room = Some 2\<rparr>, \<lparr>r_id = 2, r_name = ''Bathroom''\<rparr>),
      (\<lparr>m_device = 21, m_value = 67, m_time_stamp = ''2024-03-01T09:30:00''\<rparr>,
       \<lparr>d_id = 21, d_type = ''Fuktighetssensor'', d_room = Some 2\<rparr>, \<lparr>r_id = 2, r_name = ''Bathroom''\<rparr>),
      (\<lparr>m_device = 21, m_value = 70, m_time_stamp = ''2024-03-01 10:00:00''\<rparr>,
       \<lparr>d_id = 21, d_type = ''Fuktighetssensor'', d_room = Some 2\<rparr>, \<lparr>r_id = 2, r_name = ''Bathroom''\<rparr>),
      (\<lparr>m_device = 21, m_value = 71, m_time_stamp = ''2024-03-01 10:20:00''\<rparr>,
       \<lparr>d_id = 21, d_type = ''Fuktighetssensor'', d_room = Some 2\<rparr>, \<lparr>r_id = 2, r_name = ''Bathroom''\<rparr>),
      (\<lparr>m_device = 21, m_value = 72, m_time_stamp = ''2024-03-01 10:20:00''\<rparr>,
       \<lparr>d_id = 21, d_type = ''Fuktighetssensor'', d_room = Some 2\<rparr>, \<lparr>r_id = 2, r_name = ''Bathroom''\<rparr>)]"
  by (simp add: joined_def demo_defs sql_true_def sql_eq_def)

lemma demo_tv_simps:
  "demo_tv ''2024-03-01'' = Some ((2024, 3, 1), (0, 0, 0))"
  "demo_tv ''2024-03-01 08:00:00'' = Some ((2024, 3, 1), (8, 0, 0))"
  "demo_tv ''2024-03-01T09:30:00'' = Some ((2024, 3, 1), (9, 30, 0))"
  "demo_tv ''2024-03-01 09:45:00'' = Some ((2024, 3, 1), (9, 45, 0))"
  "demo_tv ''2024-03-01 10:00:00'' = Some ((2024, 3, 1), (10, 0, 0))"
  "demo_tv ''2024-03-01 10:20:00'' = Some ((2024, 3, 1), (10, 20, 0))"
  "demo_tv ''2024-03-01T11:00:00'' = Some ((2024, 3, 1), (11, 0, 0))"
  "demo_tv ''2024-03-02 07:00:00'' = Some ((2024, 3, 2), (7, 0, 0))"
  by (simp_all add: demo_tv_def)

lemma demo_simps:
  "connection demo_house = demo_db"
  "measurements demo_db = demo_measurements"
  "db_id demo_sensor = 3"
  "db_id humidity_sensor = 21"
  "measurements (connection empty_house) = []"
  by (simp_all add: demo_defs)

section \<open>Most recent reading\<close>

text \<open>
  Claim C1. \<^verbatim>\<open>get_most_recent_sensor_reading\<close> returns \<^verbatim>\<open>None\<close> exactly when no
  measurement row belongs to the device. Otherwise it returns, without raising, the
  value of a row of the device whose \<^verbatim>\<open>datetime(time_stamp)\<close> is greatest among the
  rows of the device. The comparison is on the time values that the engine reads from
  the texts (a text that is no time value counts as least), not on the texts, and the
  statement speaks of the set of rows only, so the order of insertion plays no part.
\<close>

theorem most_recent_reading:
  fixes sensor :: "'a Device_scheme"
  shows
  "(fst (get_most_recent_sensor_reading tv sensor self) = Inr SqlNull \<longleftrightarrow>
      (\<forall>m \<in> set (measurements (connection self)). m_device m \<noteq> db_id sensor)) \<and>
   ((\<exists>m \<in> set (measurements (connection self)). m_device m = db_id sensor) \<longrightarrow>
      (\<exists>m \<in> set (measurements (connection self)).
         m_device m = db_id sensor \<and>
         fst (get_most_recent_sensor_reading tv sensor self) = Inr (SqlReal (m_value m)) \<and>
         (\<forall>m' \<in> set (measurements (connection self)).
            m_device m' = db_id sensor \<longrightarrow>
            DATETIME tv (m_time_stamp m') \<le> DATETIME tv (m_time_stamp m))))"
proof -
  define rows where "rows = filter (\<lambda>m. m_device m = db_id sensor) (measurements (connection self))"
  define srt where "srt = order_by_desc (\<lambda>m. DATETIME tv (m_time_stamp m)) rows"
  have res: "fst (get_most_recent_sensor_reading tv sensor self) =
      (case srt of [] \<Rightarrow> Inr SqlNull | m # ms \<Rightarrow> Inr (SqlReal (m_value m)))"
    by (simp add: get_most_recent_sensor_reading_def Let_def split_def fetchone_execute
        most_recent_query_def py_index_def srt_def rows_def split: list.splits)
  show ?thesis
  proof (cases srt)
    case Nil
    then have "rows = []" by (simp add: srt_def order_by_desc_Nil)
    then have "\<forall>m \<in> set (measurements (connection self)). m_device m \<noteq> db_id sensor"
      by (auto simp: rows_def filter_empty_conv)
    then show ?thesis using res Nil by auto
  next
    case (Cons m ms)
    from order_by_desc_head [OF Cons [unfolded srt_def]]
    have "m \<in> set rows" and "\<forall>x \<in> set rows. DATETIME tv (m_time_stamp x) \<le> DATETIME tv (m_time_stamp m)"
      by auto
    then show ?thesis using res Cons by (auto simp: rows_def)
  qed
qed

theorem most_recent_reading_witness:
  "(\<exists>m \<in> set (measurements (connection demo_house)). m_device m = db_id demo_sensor) \<and>
   fst (get_most_recent_sensor_reading demo_tv demo_sensor demo_house) = Inr (SqlReal 22) \<and>
   fst (get_most_recent_sensor_reading demo_tv demo_sensor empty_house) = Inr SqlNull"
  using most_recent_reading [of demo_tv demo_sensor demo_house]
    most_recent_reading [of demo_tv demo_sensor empty_house]
  by (simp add: demo_simps demo_measurements_def DATETIME_def demo_tv_simps less_eq_prod_def)

section \<open>Coldest room\<close>

text \<open>
  Claim C5, as amended. \<^verbatim>\<open>get_coldest_room\<close> looks at the measurements of
  devices that stand in a room, whatever the type of the device: a measurement,
  a device with the id that the measurement names, and a room with the id that the
  device names. When there is none, it returns \<^verbatim>\<open>None\<close>. When there is one, it
  returns one room name, and it is the name of a room that holds a measurement whose
  value is least among all these measurements. In the small house the humidity
  sensor of the bathroom decides, not the temperature sensor of the kitchen.
\<close>

theorem coldest_room_among_placed_devices:
  "((\<forall>m \<in> set (measurements (connection self)). \<forall>d \<in> set (devices (connection self)).
       \<forall>r \<in> set (rooms (connection self)).
         d_id d = m_device m \<longrightarrow> d_room d \<noteq> Some (r_id r)) \<longrightarrow>
      fst (get_coldest_room self) = Inr SqlNull) \<and>
   ((\<exists>m \<in> set (measurements (connection self)). \<exists>d \<in> set (devices (connection self)).
       \<exists>r \<in> set (rooms (connection self)).
         d_id d = m_device m \<and> d_room d = Some (r_id r)) \<longrightarrow>
      (\<exists>m \<in> set (measurements (connection self)). \<exists>d \<in> set (devices (connection self)).
         \<exists>r \<in> set (rooms (connection self)).
           d_id d = m_device m \<and> d_room d = Some (r_id r) \<and>
           fst (get_coldest_room self) = Inr (SqlText (r_name r)) \<and>
           (\<forall>m' \<in> set (measurements (connection self)). \<forall>d' \<in> set (devices (connection self)).
              \<forall>r' \<in> set (rooms (connection self)).
                d_id d' = m_device m' \<and> d_room d' = Some (r_id r') \<longrightarrow>
                m_value m \<le> m_value m')))"
proof (cases "joined (connection self)")
  case Nil
  have res: "fst (get_coldest_room self) = Inr SqlNull"
    by (simp add: get_coldest_room_def Let_def split_def fetchone_execute coldest_room_query_def
        Nil py_index_def)
  have none: "(m, d, r) \<notin> set (joined (connection self))" for m d r
    by (simp add: Nil)
  show ?thesis
    using res none by (auto simp: joined_iff)
next
  case (Cons x xs)
  obtain m d r where b: "min_row x xs = (m, d, r)" by (cases "min_row x xs") auto
  have res: "fst (get_coldest_room self) = Inr (SqlText (r_name r))"
    by (simp add: get_coldest_room_def Let_def split_def fetchone_execute coldest_room_query_def
        Cons b py_index_def)
  from min_row_least [of x xs] b Cons
  have mem: "(m, d, r) \<in> set (joined (connection self))"
    and least: "\<forall>y \<in> set (joined (connection self)). m_value m \<le> m_value (fst y)" by auto
  have le: "m_value m \<le> m_value m'"
    if "m' \<in> set (measurements (connection self))" "d' \<in> set (devices (connection self))"
      "r' \<in> set (rooms (connection self))" "d_id d' = m_device m'" "d_room d' = Some (r_id r')"
    for m' d' r'
  proof -
    from that have "(m', d', r') \<in> set (joined (connection self))" by (simp add: joined_iff)
    with least show ?thesis by force
  qed
  from mem have parts: "m \<in> set (measurements (connection self))"
    "d \<in> set (devices (connection self))" "r \<in> set (rooms (connection self))"
    "d_id d = m_device m" "d_room d = Some (r_id r)"
    by (simp_all add: joined_iff)
  show ?thesis
    using parts res le by blast
qed

theorem coldest_room_among_placed_devices_witness:
  "(\<exists>m \<in> set (measurements (connection demo_house)). \<exists>d \<in> set (devices (connection demo_house)).
       \<exists>r \<in> set (rooms (connection demo_house)).
         d_id d = m_device m \<and> d_room d = Some (r_id r)) \<and>
   fst (get_coldest_room demo_house) = Inr (SqlText ''Bathroom'') \<and>
   fst (get_coldest_room empty_house) = Inr SqlNull"
proof -
  have ex: "\<exists>m \<in> set (measurements (connection demo_house)). \<exists>d \<in> set (devices (connection demo_house)).
       \<exists>r \<in> set (rooms (connection demo_house)).
         d_id d = m_device m \<and> d_room d = Some (r_id r)"
    by (simp add: demo_defs)
  have a: "fst (get_coldest_room demo_house) = Inr (SqlText ''Bathroom'')"
    using coldest_room_among_placed_devices [of demo_house, THEN conjunct2, THEN mp, OF ex]
    by (simp add: demo_defs)
  have b: "fst (get_coldest_room empty_house) = Inr SqlNull"
    using coldest_room_among_placed_devices [of empty_house, THEN conjunct1]
    by (simp add: demo_defs)
  show ?thesis using ex a b by (intro conjI)
qed

text \<open>
  Claim C5, as stated, fails on the small house. The least value of all measurements
  is 2, recorded by device 7, which stands in no room; no measurement of a device in
  a room is as low, so no room contains the least measurement, and yet the method
  returns a room name, the bathroom, whose least value is 5.
\<close>

theorem coldest_room_global_minimum_counterexample:
  "fst (get_coldest_room demo_house) = Inr (SqlText ''Bathroom'') \<and>
   Min (m_value ` set (measurements (connection demo_house))) = 2 \<and>
   filter (\<lambda>(m, d, r). m_value m \<le> 2) (joined (connection demo_house)) = [] \<and>
   Min ((\<lambda>(m, d, r). m_value m) `
     set (filter (\<lambda>(m, d, r). r_name r = ''Bathroom'') (joined (connection demo_house)))) = 5"
proof -
  have a: "fst (get_coldest_room demo_house) = Inr (SqlText ''Bathroom'')"
    by (simp add: get_coldest_room_def Let_def split_def fetchone_execute coldest_room_query_def
        demo_simps demo_joined min_row_def py_index_def)
  have b: "Min (m_value ` set (measurements (connection demo_house))) = 2"
    by (simp add: demo_simps demo_measurements_def)
  have c: "filter (\<lambda>(m, d, r). m_value m \<le> 2) (joined (connection demo_house)) = []"
    by (simp add: demo_simps demo_joined)
  have d: "Min ((\<lambda>(m, d, r). m_value m) `
     set (filter (\<lambda>(m, d, r). r_name r = ''Bathroom'') (joined (connection demo_house)))) = 5"
    by (simp add: demo_simps demo_joined)
  show ?thesis using a b c d by (intro conjI)
qed

text \<open>
  Claim C7. On an empty measurements table \<^verbatim>\<open>get_coldest_room\<close> returns
  \<^verbatim>\<open>None\<close> and raises nothing.
\<close>

theorem coldest_room_no_measurements:
  "measurements (connection self) = [] \<Longrightarrow> fst (get_coldest_room self) = Inr SqlNull"
  by (simp add: get_coldest_room_def Let_def split_def fetchone_execute coldest_room_query_def
      joined_def py_index_def)

theorem coldest_room_no_measurements_witness:
  "measurements (connection empty_house) = [] \<and> fst (get_coldest_room empty_house) = Inr SqlNull"
proof -
  have e: "measurements (connection empty_house) = []" by (simp add: empty_house_def)
  from coldest_room_no_measurements [OF e] e show ?thesis by simp
qed

section \<open>Readings in a time span\<close>

text \<open>
  Claim C6. \<^verbatim>\<open>get_sensor_readings_in_timespan\<close> returns, in table order and
  without raising, exactly the values of the rows of the device whose time value lies
  between the time values of \<open>from_ts\<close> and \<open>to_ts\<close>, both ends included. With both
  ends equal to the time value of a stored row of the device, that row is in the
  result. When no row matches, the result is the empty list.
\<close>

theorem readings_in_timespan:
  fixes sensor :: "'a Device_scheme"
  shows
  "fst (get_sensor_readings_in_timespan tv sensor from_ts to_ts self) =
     Inr (map (\<lambda>m. SqlReal (m_value m))
       (filter (\<lambda>m. m_device m = db_id sensor \<and>
            (\<exists>t a b. DATETIME tv (m_time_stamp m) = Some t \<and> DATETIME tv from_ts = Some a \<and>
               DATETIME tv to_ts = Some b \<and> a \<le> t \<and> t \<le> b))
          (measurements (connection self)))) \<and>
   (\<forall>m \<in> set (measurements (connection self)).
      m_device m = db_id sensor \<and> DATETIME tv from_ts \<noteq> None \<and>
      DATETIME tv (m_time_stamp m) = DATETIME tv from_ts \<longrightarrow>
      fst (get_sensor_readings_in_timespan tv sensor from_ts from_ts self) \<noteq> Inr [] \<and>
      (\<exists>vs. fst (get_sensor_readings_in_timespan tv sensor from_ts from_ts self) = Inr vs \<and>
         SqlReal (m_value m) \<in> set vs))"
proof -
  have eq: "\<And>a b. fst (get_sensor_readings_in_timespan tv sensor a b self) =
     Inr (map (\<lambda>m. SqlReal (m_value m))
       (filter (\<lambda>m. m_device m = db_id sensor \<and>
            (\<exists>t x y. DATETIME tv (m_time_stamp m) = Some t \<and> DATETIME tv a = Some x \<and>
               DATETIME tv b = Some y \<and> x \<le> t \<and> t \<le> y))
          (measurements (connection self))))"
    by (simp add: get_sensor_readings_in_timespan_def Let_def split_def fetchall_execute
        timespan_query_def py_list_comp_index0 sql_between_true)
  show ?thesis
    unfolding eq by (auto simp: filter_empty_conv)
qed

theorem readings_in_timespan_witness:
  "fst (get_sensor_readings_in_timespan demo_tv humidity_sensor
          ''2024-03-01T09:30:00'' ''2024-03-01 10:00:00'' demo_house) =
     Inr [SqlReal 64, SqlReal 65, SqlReal 66, SqlReal 67, SqlReal 70] \<and>
   fst (get_sensor_readings_in_timespan demo_tv demo_sensor
          ''2024-03-01 10:00:00'' ''2024-03-01 10:00:00'' demo_house) = Inr [SqlReal 22] \<and>
   fst (get_sensor_readings_in_timespan demo_tv demo_sensor
          ''2024-03-02 07:00:00'' ''2024-03-02 07:00:00'' demo_house) = Inr []"
  using readings_in_timespan [of demo_tv humidity_sensor "''2024-03-01T09:30:00''" "''2024-03-01 10:00:00''" demo_house]
    readings_in_timespan [of demo_tv demo_sensor "''2024-03-01 10:00:00''" "''2024-03-01 10:00:00''" demo_house]
    readings_in_timespan [of demo_tv demo_sensor "''2024-03-02 07:00:00''" "''2024-03-02 07:00:00''" demo_house]
  by (simp add: demo_simps demo_measurements_def DATETIME_def demo_tv_simps less_eq_prod_def)

section \<open>Frame\<close>

text \<open>
  Claim C8. Each of the five analytics methods leaves the three tables as they were:
  the connection after the call holds the same rooms, devices and measurements as
  before. Only the pending rows of the cursor change. For the humidity query this
  holds for every room name, also when the call raises.
\<close>

theorem analytics_read_only:
  fixes sensor :: "'a Device_scheme"
  shows
  "connection (snd (get_most_recent_sensor_reading tv sensor self)) = connection self \<and>
   connection (snd (get_coldest_room self)) = connection self \<and>
   connection (snd (get_sensor_readings_in_timespan tv sensor from_ts to_ts self)) = connection self \<and>
   connection (snd (describe_temperature_in_rooms self)) = connection self \<and>
   connection (snd (get_hours_when_humidity_above_average tv foreign room_name day self)) =
     connection self"
proof -
  have a: "connection (snd (get_most_recent_sensor_reading tv sensor self)) = connection self"
    using fetchone_connection [of "execute (most_recent_query tv (db_id sensor)) self"]
    by (simp add: get_most_recent_sensor_reading_def Let_def split_def execute_connection)
  have b: "connection (snd (get_coldest_room self)) = connection self"
    using fetchone_connection [of "execute coldest_room_query self"]
    by (simp add: get_coldest_room_def Let_def split_def execute_connection)
  have c: "connection (snd (get_sensor_readings_in_timespan tv sensor from_ts to_ts self)) = connection self"
    using fetchall_connection [of "execute (timespan_query tv (db_id sensor) from_ts to_ts) self"]
    by (simp add: get_sensor_readings_in_timespan_def Let_def split_def execute_connection)
  have d: "connection (snd (describe_temperature_in_rooms self)) = connection self"
    using fetchall_connection [of "execute describe_query self"]
    by (simp add: describe_temperature_in_rooms_def Let_def split_def execute_connection)
  have e: "connection (snd (get_hours_when_humidity_above_average tv foreign room_name day self)) =
      connection self"
  proof (cases "humidity_statement tv foreign room_name day (connection self)")
    case (Inl err)
    then show ?thesis by (simp add: get_hours_when_humidity_above_average_def)
  next
    case (Inr result)
    then show ?thesis
      using fetchall_connection [of "execute (\<lambda>db. result) self"]
      by (simp add: get_hours_when_humidity_above_average_def Let_def split_def execute_connection)
  qed
  show ?thesis using a b c d e by simp
qed

theorem analytics_read_only_witness:
  "connection (snd (get_most_recent_sensor_reading demo_tv demo_sensor demo_house)) = demo_db \<and>
   connection (snd (get_coldest_room demo_house)) = demo_db \<and>
   connection (snd (get_sensor_readings_in_timespan demo_tv demo_sensor
      ''2024-03-01'' ''2024-03-02 07:00:00'' demo_house)) = demo_db \<and>
   connection (snd (describe_temperature_in_rooms demo_house)) = demo_db \<and>
   connection (snd (get_hours_when_humidity_above_average demo_tv refuse ''Bathroom'' demo_day
      demo_house)) = demo_db"
  using analytics_read_only [of demo_tv demo_sensor demo_house "''2024-03-01''"
      "''2024-03-02 07:00:00''" refuse "''Bathroom''" demo_day]
  by (simp add: demo_simps)

text \<open>
  Claim C10. \<^verbatim>\<open>get_most_recent_sensor_reading\<close> and
  \<^verbatim>\<open>get_sensor_readings_in_timespan\<close> read nothing of their device argument but
  \<^verbatim>\<open>db_id\<close>: two devices with the same \<^verbatim>\<open>db_id\<close>, whatever else they carry,
  give the same result and the same state after the call.
\<close>

theorem readings_depend_on_db_id:
  fixes s1 :: "'a Device_scheme" and s2 :: "'b Device_scheme"
  shows "db_id s1 = db_id s2 \<Longrightarrow>
    get_most_recent_sensor_reading tv s1 self = get_most_recent_sensor_reading tv s2 self \<and>
    get_sensor_readings_in_timespan tv s1 from_ts to_ts self =
      get_sensor_readings_in_timespan tv s2 from_ts to_ts self"
  by (simp add: get_most_recent_sensor_reading_def get_sensor_readings_in_timespan_def)

theorem readings_depend_on_db_id_witness:
  "db_id \<lparr>db_id = 3, \<dots> = ''thermometer''\<rparr> = db_id demo_sensor \<and>
   get_most_recent_sensor_reading demo_tv \<lparr>db_id = 3, \<dots> = ''thermometer''\<rparr> demo_house =
     get_most_recent_sensor_reading demo_tv demo_sensor demo_house \<and>
   get_sensor_readings_in_timespan demo_tv \<lparr>db_id = 3, \<dots> = ''thermometer''\<rparr>
       ''2024-03-01'' ''2024-03-02 07:00:00'' demo_house =
     get_sensor_readings_in_timespan demo_tv demo_sensor
       ''2024-03-01'' ''2024-03-02 07:00:00'' demo_house"
proof -
  have h: "db_id \<lparr>db_id = 3, \<dots> = ''thermometer''\<rparr> = db_id demo_sensor"
    by (simp add: demo_simps)
  from readings_depend_on_db_id [OF h] h show ?thesis by blast
qed

section \<open>Temperature per room\<close>

lemma describe_loop_map:
  "describe_loop (map (\<lambda>n. [SqlText n, a n, b n, c n]) ns) T =
     Inr (\<lambda>k. case k of
            SqlText n \<Rightarrow> if n \<in> set ns then Some (a n, b n, c n) else T k
          | _ \<Rightarrow> T k)"
proof (induction ns arbitrary: T)
  case Nil
  show ?case by (auto simp: fun_eq_iff split: sqlval.splits)
next
  case (Cons n ns)
  show ?case by (auto simp: py_index_def Cons.IH fun_eq_iff split: sqlval.splits)
qed

lemma sql_min_Min: "vs \<noteq> [] \<Longrightarrow> sql_min vs = Some (Min (set vs))"
proof (cases vs)
  case Nil
  assume "vs \<noteq> []"
  with Nil show ?thesis by simp
next
  case (Cons v ws)
  show ?thesis using Min.set_eq_fold [of v ws] by (simp add: sql_min_def Cons)
qed

lemma sql_max_Max: "vs \<noteq> [] \<Longrightarrow> sql_max vs = Some (Max (set vs))"
proof (cases vs)
  case Nil
  assume "vs \<noteq> []"
  with Nil show ?thesis by simp
next
  case (Cons v ws)
  show ?thesis using Max.set_eq_fold [of v ws] by (simp add: sql_max_def Cons)
qed

lemma group_values_temperature:
  "group_values (temperature_rows db) n =
     map (\<lambda>(m, d, r). m_value m)
       (filter (\<lambda>(m, d, r). d_type d = ''Temperatursensor'' \<and> r_name r = n) (joined db))"
  by (simp add: group_values_def temperature_rows_def split_def conj_commute)

lemma group_values_Nil:
  "group_values rows n = [] \<longleftrightarrow> n \<notin> (\<lambda>(m, d, r). r_name r) ` set rows"
  by (fastforce simp: group_values_def filter_empty_conv image_iff split_def)




lemma describe_temperature_entries:
  "\<exists>T. fst (describe_temperature_in_rooms self) = Inr T \<and>
     dom T = {SqlText (r_name r) | m d r.
                (m, d, r) \<in> set (joined (connection self)) \<and> d_type d = ''Temperatursensor''} \<and>
     (\<forall>k. k \<in> dom T \<longrightarrow> (\<exists>n. k = SqlText n)) \<and>
     (\<forall>n vs.
        vs = map (\<lambda>(m, d, r). m_value m)
               (filter (\<lambda>(m, d, r). d_type d = ''Temperatursensor'' \<and> r_name r = n)
                  (joined (connection self))) \<and>
        vs \<noteq> [] \<longrightarrow>
        T (SqlText n) =
          Some (SqlReal (Min (set vs)), SqlReal (Max (set vs)), double_val (sql_avg vs))) \<and>
     (\<forall>n. map (\<lambda>(m, d, r). m_value m)
               (filter (\<lambda>(m, d, r). d_type d = ''Temperatursensor'' \<and> r_name r = n)
                  (joined (connection self))) = [] \<longrightarrow> T (SqlText n) = None)"
proof -
  define db where "db = connection self"
  define rows where "rows = temperature_rows db"
  define ns where "ns = sort (remdups (map (\<lambda>(m, d, r). r_name r) rows))"
  define T :: description where
    "T = (\<lambda>k. case k of
            SqlText n \<Rightarrow>
              if n \<in> set ns
              then Some (real_val (sql_min (group_values rows n)),
                         real_val (sql_max (group_values rows n)),
                         double_val (sql_avg (group_values rows n)))
              else None
          | _ \<Rightarrow> None)"
  have res: "fst (describe_temperature_in_rooms self) = Inr T"
    unfolding describe_temperature_in_rooms_def Let_def split_def fst_conv fetchall_execute
      describe_query_def describe_loop_map T_def ns_def rows_def db_def
    by simp
  have ns: "set ns = (\<lambda>(m, d, r). r_name r) ` set rows"
    by (simp add: ns_def)
  have "k \<in> dom T \<longleftrightarrow> k \<in> SqlText ` set ns" for k
    by (cases k) (auto simp: T_def dom_def)
  then have dom: "dom T = SqlText ` set ns" by blast
  have keys: "SqlText ` set ns =
      {SqlText (r_name r) | m d r. (m, d, r) \<in> set (joined db) \<and> d_type d = ''Temperatursensor''}"
    by (fastforce simp: ns rows_def temperature_rows_def image_iff split_def)
  have texts: "\<forall>k. k \<in> dom T \<longrightarrow> (\<exists>n. k = SqlText n)"
    unfolding dom by blast
  have vals: "T (SqlText n) =
          Some (SqlReal (Min (set vs)), SqlReal (Max (set vs)), double_val (sql_avg vs))"
    if v: "vs = map (\<lambda>(m, d, r). m_value m)
               (filter (\<lambda>(m, d, r). d_type d = ''Temperatursensor'' \<and> r_name r = n) (joined db))"
      and ne: "vs \<noteq> []" for n vs
  proof -
    have g: "group_values rows n = vs"
      by (simp add: rows_def group_values_temperature v)
    have "n \<in> set ns" using g ne group_values_Nil [of rows n] by (simp add: ns)
    then show ?thesis
      using ne by (simp add: T_def g sql_min_Min sql_max_Max real_val_def)
  qed
  have none: "T (SqlText n) = None"
    if "map (\<lambda>(m, d, r). m_value m)
               (filter (\<lambda>(m, d, r). d_type d = ''Temperatursensor'' \<and> r_name r = n) (joined db)) = []"
    for n
  proof -
    have "group_values rows n = []"
      using that by (simp add: rows_def group_values_temperature)
    then have "n \<notin> set ns" using group_values_Nil [of rows n] by (simp add: ns)
    then show ?thesis by (simp add: T_def)
  qed
  show ?thesis
    using res dom keys texts vals none unfolding db_def by (intro exI [of _ T]) simp
qed

lemmas double_defs = sql_avg_def kbn_step_def d_add_def d_div_def fin_add_def fl_def fl_pos_def
  shifts_def scaled_def round_half_even_def Let_def

lemma avg_of_18_22: "sql_avg [22, 18] = Some (Fin 20)"
  by (simp add: double_defs)

lemma avg_of_tenths:
  "sql_avg [tenth, tenth, tenth] = Some (Fin (7205759403792795 / 72057594037927936))"
  by (simp add: double_defs tenth_def)

lemma demo_temperature_values:
  "map (\<lambda>(m, d, r). m_value m)
     (filter (\<lambda>(m, d, r). d_type d = ''Temperatursensor'' \<and> r_name r = ''Kitchen'')
        (joined demo_db)) = [22, 18]"
  by (simp add: demo_joined)

lemma demo_temperature_names:
  "{SqlText (r_name r) | m d r. (m, d, r) \<in> set (joined demo_db) \<and> d_type d = ''Temperatursensor''} =
     {SqlText ''Kitchen''}"
proof -
  have "{SqlText (r_name r) | m d r. (m, d, r) \<in> set (joined demo_db) \<and> d_type d = ''Temperatursensor''} =
      (\<lambda>(m, d, r). SqlText (r_name r)) `
        set (filter (\<lambda>(m, d, r). d_type d = ''Temperatursensor'') (joined demo_db))"
    by (fastforce simp: image_iff split_def)
  also have "\<dots> = {SqlText ''Kitchen''}"
    by (simp add: demo_joined)
  finally show ?thesis .
qed

lemma tenth_temperature_values:
  "map (\<lambda>(m, d, r). m_value m)
     (filter (\<lambda>(m, d, r). d_type d = ''Temperatursensor'' \<and> r_name r = ''Kitchen'')
        (joined (connection tenth_house))) = [tenth, tenth, tenth]"
  by (simp add: tenth_house_def tenth_db_def joined_def sql_true_def sql_eq_def)

lemma tenth_entry:
  "(case fst (describe_temperature_in_rooms tenth_house) of
      Inl e \<Rightarrow> None | Inr T \<Rightarrow> T (SqlText ''Kitchen'')) =
   Some (SqlReal tenth, SqlReal tenth, SqlReal (7205759403792795 / 72057594037927936))"
proof -
  from describe_temperature_entries [of tenth_house] obtain T where
    r: "fst (describe_temperature_in_rooms tenth_house) = Inr T" and
    v: "\<forall>n vs.
        vs = map (\<lambda>(m, d, r). m_value m)
               (filter (\<lambda>(m, d, r). d_type d = ''Temperatursensor'' \<and> r_name r = n)
                  (joined (connection tenth_house))) \<and>
        vs \<noteq> [] \<longrightarrow>
        T (SqlText n) =
          Some (SqlReal (Min (set vs)), SqlReal (Max (set vs)), double_val (sql_avg vs))"
    by (elim exE conjE)
  have "[tenth, tenth, tenth] = map (\<lambda>(m, d, r). m_value m)
               (filter (\<lambda>(m, d, r). d_type d = ''Temperatursensor'' \<and> r_name r = ''Kitchen'')
                  (joined (connection tenth_house))) \<and> [tenth, tenth, tenth] \<noteq> []"
    using tenth_temperature_values by simp
  from v [THEN spec, THEN spec, THEN mp, OF this]
  have "T (SqlText ''Kitchen'') =
      Some (SqlReal tenth, SqlReal tenth, SqlReal (7205759403792795 / 72057594037927936))"
    by (simp add: avg_of_tenths double_val_def)
  then show ?thesis by (simp add: r)
qed

text \<open>
  Claim C2, as amended. \<^verbatim>\<open>describe_temperature_in_rooms\<close> returns, without
  raising, a dictionary whose keys are exactly the names of the rooms that hold a
  measurement of a device of type \<^verbatim>\<open>Temperatursensor\<close>. The entry of such a name is
  the minimum, the maximum and the average of the values of all these measurements
  in rooms of that name, where the average is the one the engine computes in double
  precision: the compensated running sum, divided by the count, every operation
  rounded. In the small house the kitchen has the two rows 22 and 18 and the entry
  \<open>(18, 22, 20)\<close>; the bathroom, whose measurements all come from a humidity
  sensor, has no entry.
\<close>

theorem temperature_summary_by_room:
  "\<exists>T. fst (describe_temperature_in_rooms self) = Inr T \<and>
     dom T = {SqlText (r_name r) | m d r.
                (m, d, r) \<in> set (joined (connection self)) \<and> d_type d = ''Temperatursensor''} \<and>
     (\<forall>n vs.
        vs = map (\<lambda>(m, d, r). m_value m)
               (filter (\<lambda>(m, d, r). d_type d = ''Temperatursensor'' \<and> r_name r = n)
                  (joined (connection self))) \<and>
        vs \<noteq> [] \<longrightarrow>
        T (SqlText n) =
          Some (SqlReal (Min (set vs)), SqlReal (Max (set vs)), double_val (sql_avg vs)))"
proof -
  from describe_temperature_entries [of self] obtain T where
    "fst (describe_temperature_in_rooms self) = Inr T"
    "dom T = {SqlText (r_name r) | m d r.
                (m, d, r) \<in> set (joined (connection self)) \<and> d_type d = ''Temperatursensor''}"
    "\<forall>n vs.
        vs = map (\<lambda>(m, d, r). m_value m)
               (filter (\<lambda>(m, d, r). d_type d = ''Temperatursensor'' \<and> r_name r = n)
                  (joined (connection self))) \<and>
        vs \<noteq> [] \<longrightarrow>
        T (SqlText n) =
          Some (SqlReal (Min (set vs)), SqlReal (Max (set vs)), double_val (sql_avg vs))"
    by (elim exE conjE)
  then show ?thesis by (intro exI [of _ T] conjI)
qed

theorem temperature_summary_by_room_witness:
  "\<exists>T. fst (describe_temperature_in_rooms demo_house) = Inr T \<and>
     T (SqlText ''Kitchen'') = Some (SqlReal 18, SqlReal 22, SqlReal 20) \<and>
     T (SqlText ''Bathroom'') = None \<and>
     dom T = {SqlText ''Kitchen''}"
proof -
  from temperature_summary_by_room [of demo_house] obtain T where
    T: "fst (describe_temperature_in_rooms demo_house) = Inr T \<and>
     dom T = {SqlText (r_name r) | m d r.
                (m, d, r) \<in> set (joined (connection demo_house)) \<and> d_type d = ''Temperatursensor''} \<and>
     (\<forall>n vs.
        vs = map (\<lambda>(m, d, r). m_value m)
               (filter (\<lambda>(m, d, r). d_type d = ''Temperatursensor'' \<and> r_name r = n)
                  (joined (connection demo_house))) \<and>
        vs \<noteq> [] \<longrightarrow>
        T (SqlText n) =
          Some (SqlReal (Min (set vs)), SqlReal (Max (set vs)), double_val (sql_avg vs)))" ..
  note r = T [THEN conjunct1]
  note d = T [THEN conjunct2, THEN conjunct1, unfolded demo_simps demo_temperature_names]
  note v = T [THEN conjunct2, THEN conjunct2, unfolded demo_simps, THEN spec, THEN spec, THEN mp]
  have "[22, 18] = map (\<lambda>(m, d, r). m_value m)
               (filter (\<lambda>(m, d, r). d_type d = ''Temperatursensor'' \<and> r_name r = ''Kitchen'')
                  (joined demo_db)) \<and> [22, 18 :: real] \<noteq> []"
    using demo_temperature_values by simp
  from v [OF this] have k: "T (SqlText ''Kitchen'') = Some (SqlReal 18, SqlReal 22, SqlReal 20)"
    by (simp add: avg_of_18_22 double_val_def)
  have "SqlText ''Bathroom'' \<notin> dom T"
    unfolding d by simp
  then have b: "T (SqlText ''Bathroom'') = None"
    by (simp only: domIff not_not)
  from r k b d show ?thesis by (intro exI [of _ T] conjI)
qed

text \<open>
  Claim C2, as stated, fails where the rounding shows: the third component is not
  always the arithmetic mean of the values. For three measurements of the double
  nearest to one tenth, whose mean is that same number, the entry of the kitchen has
  the average \<open>7205759403792795 / 2 ^ 56\<close>, which is the next double above it (the
  sum of the three is rounded up before the division).
\<close>

theorem temperature_mean_counterexample:
  "(case fst (describe_temperature_in_rooms tenth_house) of
      Inl e \<Rightarrow> None | Inr T \<Rightarrow> T (SqlText ''Kitchen'')) =
     Some (SqlReal tenth, SqlReal tenth, SqlReal (7205759403792795 / 72057594037927936)) \<and>
   map (\<lambda>(m, d, r). m_value m)
     (filter (\<lambda>(m, d, r). d_type d = ''Temperatursensor'' \<and> r_name r = ''Kitchen'')
        (joined (connection tenth_house))) = [tenth, tenth, tenth] \<and>
   sum_list [tenth, tenth, tenth] / real (length [tenth, tenth, tenth]) = tenth \<and>
   tenth \<noteq> 7205759403792795 / 72057594037927936"
proof -
  have a: "sum_list [tenth, tenth, tenth] / real (length [tenth, tenth, tenth]) = tenth"
    by simp
  have b: "tenth \<noteq> 7205759403792795 / 72057594037927936"
    by (simp add: tenth_def)
  show ?thesis using tenth_entry tenth_temperature_values a b by (intro conjI)
qed




section \<open>Hours with humidity above the average\<close>

subsection \<open>Hour texts\<close>

lemma digit_val_digit_char: "d < 10 \<Longrightarrow> digit_val (digit_char d) = Some d"
proof -
  assume "d < 10"
  then have "d = 0 \<or> d = 1 \<or> d = 2 \<or> d = 3 \<or> d = 4 \<or> d = 5 \<or> d = 6 \<or> d = 7 \<or> d = 8 \<or> d = 9"
    by presburger
  then show ?thesis
    by (elim disjE) (simp_all add: digit_val_def digit_char_def)
qed

lemma digits_val_append:
  "digits_val acc (xs @ ys) =
     (case digits_val acc xs of None \<Rightarrow> None | Some a \<Rightarrow> digits_val a ys)"
  by (induction xs arbitrary: acc) (auto split: option.splits)

lemma digits_val_decimal: "digits_val 0 (decimal n) = Some n"
proof (induction n rule: decimal.induct)
  case (1 n)
  show ?case
  proof (cases "n < 10")
    case True
    then show ?thesis
      by (subst decimal.simps) (simp add: digit_val_digit_char)
  next
    case False
    have d: "digit_val (digit_char (n mod 10)) = Some (n mod 10)"
      by (rule digit_val_digit_char) simp
    from False have "decimal n = decimal (n div 10) @ [digit_char (n mod 10)]"
      by (subst decimal.simps) simp
    then show ?thesis
      using "1.IH" False by (simp add: digits_val_append d)
  qed
qed

lemma digits_val_zeros: "digits_val 0 (replicate k (CHR ''0'') @ xs) = digits_val 0 xs"
  by (induction k) (simp_all add: digit_val_def)

lemma decimal_not_Nil: "decimal n \<noteq> []"
  by (subst decimal.simps) simp

lemma digits_val_pad: "digits_val 0 (pad w n) = Some n"
  by (simp add: pad_def digits_val_zeros digits_val_decimal)

lemma py_int_pad: "py_int (SqlText (pad w n)) = Inr (int n)"
  by (simp add: py_int_def digits_val_pad) (simp add: pad_def decimal_not_Nil)

lemma pad_inj: "pad w m = pad w n \<Longrightarrow> m = n"
proof -
  assume c: "pad w m = pad w n"
  have "Some m = digits_val 0 (pad w m)" by (simp only: digits_val_pad)
  also have "\<dots> = Some n" by (simp only: c digits_val_pad)
  finally show ?thesis by simp
qed

subsection \<open>The room name in the statement\<close>

lemma scan_literal_plain:
  "CHR 0x27 \<notin> set s \<Longrightarrow> scan_literal acc s = Template (acc @ s)"
  by (induction acc s rule: scan_literal.induct) auto

lemma name_slot_plain: "plain_literal s \<Longrightarrow> name_slot s = Template s"
  by (simp add: plain_literal_def name_slot_def scan_literal_plain)

subsection \<open>The condition on a row\<close>

lemma humidity_average_iff:
  "humidity_average tv day db =
     sql_avg (map m_value
       (filter (\<lambda>m. m_device m = 21 \<and> DATE tv (m_time_stamp m) \<noteq> None \<and>
                    DATE tv (m_time_stamp m) = DATE tv day)
          (measurements db)))"
proof -
  have h: "sql_true (sql_and (Some (m_device m = 21)) (sql_eq (DATE tv (m_time_stamp m)) (DATE tv day))) =
      (m_device m = 21 \<and> DATE tv (m_time_stamp m) \<noteq> None \<and>
      DATE tv (m_time_stamp m) = DATE tv day)" for m
    by (auto simp: sql_true_def sql_and_def sql_eq_def split: option.splits)
  show ?thesis unfolding humidity_average_def h ..
qed

lemma sql_gt_avg_true:
  "sql_gt_avg v t = Some True \<longleftrightarrow> t = Some NInf \<or> (\<exists>a. t = Some (Fin a) \<and> a < v)"
  by (auto simp: sql_gt_avg_def split: option.splits double.splits)

lemma humidity_where_iff:
  "sql_true (humidity_where tv name day db (m, d, r)) \<longleftrightarrow>
     r_name r = name \<and> d_type d = ''Fuktighetssensor'' \<and>
     DATE tv (m_time_stamp m) \<noteq> None \<and> DATE tv (m_time_stamp m) = DATE tv day \<and>
     (humidity_average tv day db = Some NInf \<or>
      (\<exists>a. humidity_average tv day db = Some (Fin a) \<and> a < m_value m))"
proof -
  have "sql_true (humidity_where tv name day db (m, d, r)) \<longleftrightarrow>
     r_name r = name \<and> d_type d = ''Fuktighetssensor'' \<and>
     DATE tv (m_time_stamp m) \<noteq> None \<and> DATE tv (m_time_stamp m) = DATE tv day \<and>
     sql_gt_avg (m_value m) (humidity_average tv day db) = Some True"
    by (cases "sql_gt_avg (m_value m) (humidity_average tv day db)")
      (auto simp: humidity_where_def sql_true_def sql_and_def sql_eq_def split: option.splits)
  then show ?thesis by (simp only: sql_gt_avg_true)
qed

lemma qualifying_has_time:
  "sql_true (humidity_where tv name day db (m, d, r)) \<Longrightarrow> \<exists>t. tv (m_time_stamp m) = Some t"
  by (auto simp: humidity_where_iff DATE_def)

subsection \<open>The returned hours\<close>

lemma hour_texts_member:
  assumes "py_list_comp (\<lambda>r. case py_index r 0 of Inl e \<Rightarrow> Inl e | Inr v \<Rightarrow> py_int v)
             (map (\<lambda>k. [text_val k]) ks) = Inr hs"
    and "\<forall>k \<in> set ks. \<exists>n. k = Some (pad 2 n)"
  shows "int h \<in> set hs \<longleftrightarrow> Some (pad 2 h) \<in> set ks"
  using assms
proof (induction ks arbitrary: hs)
  case Nil
  then show ?case by simp
next
  case (Cons k ks)
  from Cons.prems(2) obtain n where n: "k = Some (pad 2 n)" by auto
  have f: "(case py_index [text_val k] 0 of Inl e \<Rightarrow> Inl e | Inr v \<Rightarrow> py_int v) = Inr (int n)"
    using n by (simp add: py_index_def text_val_def py_int_pad)
  from Cons.prems(1) f obtain hs' where
    hs': "py_list_comp (\<lambda>r. case py_index r 0 of Inl e \<Rightarrow> Inl e | Inr v \<Rightarrow> py_int v)
             (map (\<lambda>k. [text_val k]) ks) = Inr hs'" and hs: "hs = int n # hs'"
    by (auto split: sum.splits)
  have ih: "int h \<in> set hs' \<longleftrightarrow> Some (pad 2 h) \<in> set ks"
    using Cons.IH [OF hs'] Cons.prems(2) by simp
  have "pad 2 h = pad 2 n \<longleftrightarrow> h = n"
    using pad_inj [of 2 h n] by auto
  then show ?case using ih hs n by auto
qed

lemma hour_texts_total:
  assumes "\<forall>k \<in> set ks. \<exists>n. k = Some (pad 2 n)"
  shows "\<exists>hs. py_list_comp (\<lambda>r. case py_index r 0 of Inl e \<Rightarrow> Inl e | Inr v \<Rightarrow> py_int v)
             (map (\<lambda>k. [text_val k]) ks) = Inr hs"
  using assms
proof (induction ks)
  case Nil
  then show ?case by simp
next
  case (Cons k ks)
  from Cons.prems obtain n where n: "k = Some (pad 2 n)" by auto
  have f: "(case py_index [text_val k] 0 of Inl e \<Rightarrow> Inl e | Inr v \<Rightarrow> py_int v) = Inr (int n)"
    using n by (simp add: py_index_def text_val_def py_int_pad)
  from Cons obtain hs where
    hs: "py_list_comp (\<lambda>r. case py_index r 0 of Inl e \<Rightarrow> Inl e | Inr v \<Rightarrow> py_int v)
             (map (\<lambda>k. [text_val k]) ks) = Inr hs"
    by auto
  show ?case using f hs by simp
qed

lemma hours_hour:
  "hours tv (m, d, r) = Some (pad 2 h) \<longleftrightarrow>
   map_option hour_of (DATETIME tv (m_time_stamp m)) = Some h"
proof -
  have "pad 2 (hour_of t) = pad 2 h \<longleftrightarrow> hour_of t = h" for t
    using pad_inj [of 2 "hour_of t" h] by auto
  then show ?thesis
    by (cases "tv (m_time_stamp m)") (auto simp: hours_def STRFTIME_H_def DATETIME_def)
qed

lemma template_hours:
  assumes "name_slot room_name = Template name"
  shows "\<exists>hs. fst (get_hours_when_humidity_above_average tv foreign room_name day self) = Inr hs \<and>
     (\<forall>h. int h \<in> set hs \<longleftrightarrow>
        3 < length (filter
              (\<lambda>(m, d, r). sql_true (humidity_where tv name (str_date day) (connection self) (m, d, r)) \<and>
                  map_option hour_of (DATETIME tv (m_time_stamp m)) = Some h)
              (joined (connection self))))"
proof -
  define db where "db = connection self"
  define rows where
    "rows = filter (\<lambda>row. sql_true (humidity_where tv name (str_date day) db row)) (joined db)"
  define ks where
    "ks = filter (\<lambda>k. 3 < length (filter (\<lambda>row. hours tv row = k) rows))
            (sort (remdups (map (hours tv) rows)))"
  have st: "humidity_statement tv foreign room_name day db =
      Inr (map (\<lambda>k. [text_val k]) ks)"
    by (simp add: humidity_statement_def assms humidity_query_def ks_def rows_def)
  have res: "fst (get_hours_when_humidity_above_average tv foreign room_name day self) =
      py_list_comp (\<lambda>r. case py_index r 0 of Inl e \<Rightarrow> Inl e | Inr v \<Rightarrow> py_int v)
        (map (\<lambda>k. [text_val k]) ks)"
    using st unfolding db_def
    by (simp add: get_hours_when_humidity_above_average_def Let_def split_def fetchall_execute)
  have keys: "\<exists>n. k = Some (pad 2 n)" if "k \<in> set ks" for k
  proof -
    from that obtain row where row: "row \<in> set rows" and k: "k = hours tv row"
      by (auto simp: ks_def)
    obtain m d r where mdr: "row = (m, d, r)" by (cases row) auto
    from row mdr have "sql_true (humidity_where tv name (str_date day) db (m, d, r))"
      by (simp add: rows_def)
    from qualifying_has_time [OF this] obtain t where t: "tv (m_time_stamp m) = Some t" by blast
    have "k = Some (pad 2 (hour_of t))"
      using k mdr t by (simp add: hours_def STRFTIME_H_def DATETIME_def)
    then show ?thesis by blast
  qed
  then have all: "\<forall>k \<in> set ks. \<exists>n. k = Some (pad 2 n)" by blast
  from hour_texts_total [OF all] obtain hs where
    hs: "py_list_comp (\<lambda>r. case py_index r 0 of Inl e \<Rightarrow> Inl e | Inr v \<Rightarrow> py_int v)
             (map (\<lambda>k. [text_val k]) ks) = Inr hs"
    by blast
  have cnt: "int h \<in> set hs \<longleftrightarrow>
        3 < length (filter
              (\<lambda>(m, d, r). sql_true (humidity_where tv name (str_date day) db (m, d, r)) \<and>
                  map_option hour_of (DATETIME tv (m_time_stamp m)) = Some h)
              (joined db))" for h
  proof -
    have a: "int h \<in> set hs \<longleftrightarrow> Some (pad 2 h) \<in> set ks"
      by (rule hour_texts_member [OF hs all])
    have b: "Some (pad 2 h) \<in> set ks \<longleftrightarrow>
        3 < length (filter (\<lambda>row. hours tv row = Some (pad 2 h)) rows)"
    proof
      assume "Some (pad 2 h) \<in> set ks"
      then show "3 < length (filter (\<lambda>row. hours tv row = Some (pad 2 h)) rows)"
        by (simp add: ks_def)
    next
      assume c: "3 < length (filter (\<lambda>row. hours tv row = Some (pad 2 h)) rows)"
      then have "filter (\<lambda>row. hours tv row = Some (pad 2 h)) rows \<noteq> []" by auto
      then obtain row where "row \<in> set rows" "hours tv row = Some (pad 2 h)"
        by (auto simp: filter_empty_conv)
      then have "Some (pad 2 h) \<in> hours tv ` set rows" by force
      with c show "Some (pad 2 h) \<in> set ks" by (simp add: ks_def)
    qed
    have c: "filter (\<lambda>row. hours tv row = Some (pad 2 h)) rows =
        filter (\<lambda>(m, d, r). sql_true (humidity_where tv name (str_date day) db (m, d, r)) \<and>
                  map_option hour_of (DATETIME tv (m_time_stamp m)) = Some h) (joined db)"
    proof -
      have p: "(sql_true (humidity_where tv name (str_date day) db row) \<and>
                  hours tv row = Some (pad 2 h)) =
               (case row of (m, d, r) \<Rightarrow>
                  sql_true (humidity_where tv name (str_date day) db (m, d, r)) \<and>
                  map_option hour_of (DATETIME tv (m_time_stamp m)) = Some h)" for row
        by (cases row) (simp add: hours_hour)
      show ?thesis unfolding rows_def filter_filter p ..
    qed
    show ?thesis by (simp only: a b c)
  qed
  show ?thesis
    using res hs cnt unfolding db_def by (intro exI [of _ hs]) simp
qed

lemma template_hours_explicit:
  assumes "name_slot room_name = Template name"
  shows "\<exists>hs. fst (get_hours_when_humidity_above_average tv foreign room_name day self) = Inr hs \<and>
     (\<forall>h. int h \<in> set hs \<longleftrightarrow>
        3 < length (filter
              (\<lambda>(m, d, r).
                  r_name r = name \<and> d_type d = ''Fuktighetssensor'' \<and>
                  DATE tv (m_time_stamp m) \<noteq> None \<and>
                  DATE tv (m_time_stamp m) = DATE tv (str_date day) \<and>
                  (humidity_average tv (str_date day) (connection self) = Some NInf \<or>
                   (\<exists>a. humidity_average tv (str_date day) (connection self) = Some (Fin a) \<and>
                        a < m_value m)) \<and>
                  map_option hour_of (DATETIME tv (m_time_stamp m)) = Some h)
              (joined (connection self))))"
  using template_hours [OF assms, of tv foreign day self]
  by (simp only: humidity_where_iff conj_assoc)

subsection \<open>The bathroom on the first of March\<close>

lemma demo_str_date: "str_date demo_day = ''2024-03-01''"
  by code_simp

lemma demo_average: "humidity_average demo_tv ''2024-03-01'' demo_db = Some (Fin 60)"
proof -
  have "map m_value
       (filter (\<lambda>m. m_device m = 21 \<and> DATE demo_tv (m_time_stamp m) \<noteq> None \<and>
                    DATE demo_tv (m_time_stamp m) = DATE demo_tv ''2024-03-01'')
          (measurements demo_db)) = [5, 64, 65, 66, 67, 70, 71, 72]"
    by (simp add: demo_simps demo_measurements_def DATE_def demo_tv_simps)
  moreover have "sql_avg [5, 64, 65, 66, 67, 70, 71, 72] = Some (Fin 60)"
    by (simp add: sql_avg_def kbn_step_def d_add_def d_div_def fin_add_def fl_def fl_pos_def
        shifts_def scaled_def round_half_even_def Let_def)
  ultimately show ?thesis by (simp only: humidity_average_iff)
qed

lemma demo_name_slots:
  "name_slot commented_name = Template ''Bathroom''"
  "name_slot cutting_name = Cut ''Bathroom''"
  by (simp_all add: name_slot_def commented_name_def cutting_name_def after_literal_def
      sql_space_def)

lemma demo_plain: "plain_literal ''Bathroom''" "plain_literal ''Kitchen''"
  by (simp_all add: plain_literal_def)

lemma demo_hour_counts:
  "length (filter
      (\<lambda>(m, d, r).
          r_name r = ''Bathroom'' \<and> d_type d = ''Fuktighetssensor'' \<and>
          DATE demo_tv (m_time_stamp m) \<noteq> None \<and>
          DATE demo_tv (m_time_stamp m) = DATE demo_tv ''2024-03-01'' \<and>
          (Some (Fin 60) = Some NInf \<or> (\<exists>a. Some (Fin 60) = Some (Fin a) \<and> a < m_value m)) \<and>
          map_option hour_of (DATETIME demo_tv (m_time_stamp m)) = Some 9)
      (joined demo_db)) = 4"
  "length (filter
      (\<lambda>(m, d, r).
          r_name r = ''Bathroom'' \<and> d_type d = ''Fuktighetssensor'' \<and>
          DATE demo_tv (m_time_stamp m) \<noteq> None \<and>
          DATE demo_tv (m_time_stamp m) = DATE demo_tv ''2024-03-01'' \<and>
          (Some (Fin 60) = Some NInf \<or> (\<exists>a. Some (Fin 60) = Some (Fin a) \<and> a < m_value m)) \<and>
          map_option hour_of (DATETIME demo_tv (m_time_stamp m)) = Some 10)
      (joined demo_db)) = 3"
  "length (filter
      (\<lambda>(m, d, r).
          r_name r = ''Bathroom'' \<and> d_type d = ''Fuktighetssensor'' \<and>
          DATE demo_tv (m_time_stamp m) \<noteq> None \<and>
          DATE demo_tv (m_time_stamp m) = DATE demo_tv ''2024-03-01'' \<and>
          (Some (Fin 60) = Some NInf \<or> (\<exists>a. Some (Fin 60) = Some (Fin a) \<and> a < m_value m)) \<and>
          map_option hour_of (DATETIME demo_tv (m_time_stamp m)) = Some 8)
      (joined demo_db)) = 0"
  "length (filter
      (\<lambda>(m, d, r).
          r_name r = ''Kitchen'' \<and> d_type d = ''Fuktighetssensor'' \<and>
          DATE demo_tv (m_time_stamp m) \<noteq> None \<and>
          DATE demo_tv (m_time_stamp m) = DATE demo_tv ''2024-03-01'' \<and>
          (Some (Fin 60) = Some NInf \<or> (\<exists>a. Some (Fin 60) = Some (Fin a) \<and> a < m_value m)) \<and>
          map_option hour_of (DATETIME demo_tv (m_time_stamp m)) = Some 9)
      (joined demo_db)) = 0"
  by (simp_all add: demo_joined DATE_def DATETIME_def demo_tv_simps hour_of_def)

subsection \<open>More than three rows in the hour\<close>

text \<open>
  Claim C3, as amended. For a room name without a quote character and without a NUL
  character, for every day and every store, \<^verbatim>\<open>get_hours_when_humidity_above_average\<close>
  returns a list without raising, and an hour is in the list exactly when more than
  three rows qualify in that hour. A row qualifies when it is a measurement of a device
  of type \<^verbatim>\<open>Fuktighetssensor\<close> in a room of that name, the date of its time stamp is
  the given day, and its value is greater than the average that the engine computes,
  in double precision, over the measurements of device 21 on that day. The hour is
  whatever the engine reads from the time stamp; nothing is assumed about it. In the
  bathroom of the small house hour 9 has four such rows and is returned, hour 10 has
  three and is not, hour 8 has none.
\<close>

theorem hours_need_more_than_three_rows:
  assumes "plain_literal room_name"
  shows "\<exists>hs. fst (get_hours_when_humidity_above_average tv foreign room_name day self) = Inr hs \<and>
     (\<forall>h. int h \<in> set hs \<longleftrightarrow>
        3 < length (filter
              (\<lambda>(m, d, r).
                  r_name r = room_name \<and> d_type d = ''Fuktighetssensor'' \<and>
                  DATE tv (m_time_stamp m) \<noteq> None \<and>
                  DATE tv (m_time_stamp m) = DATE tv (str_date day) \<and>
                  (humidity_average tv (str_date day) (connection self) = Some NInf \<or>
                   (\<exists>a. humidity_average tv (str_date day) (connection self) = Some (Fin a) \<and>
                        a < m_value m)) \<and>
                  map_option hour_of (DATETIME tv (m_time_stamp m)) = Some h)
              (joined (connection self))))"
  by (rule template_hours_explicit [OF name_slot_plain [OF assms]])

theorem hours_need_more_than_three_rows_witness:
  "plain_literal ''Bathroom'' \<and>
   (\<exists>hs. fst (get_hours_when_humidity_above_average demo_tv refuse ''Bathroom'' demo_day
             demo_house) = Inr hs \<and> 9 \<in> set hs \<and> 10 \<notin> set hs \<and> 8 \<notin> set hs)"
proof -
  from hours_need_more_than_three_rows [OF demo_plain(1), of demo_tv refuse demo_day demo_house]
  obtain hs where
    r: "fst (get_hours_when_humidity_above_average demo_tv refuse ''Bathroom'' demo_day
             demo_house) = Inr hs" and
    c: "\<forall>h. int h \<in> set hs \<longleftrightarrow>
        3 < length (filter
              (\<lambda>(m, d, r).
                  r_name r = ''Bathroom'' \<and> d_type d = ''Fuktighetssensor'' \<and>
                  DATE demo_tv (m_time_stamp m) \<noteq> None \<and>
                  DATE demo_tv (m_time_stamp m) = DATE demo_tv (str_date demo_day) \<and>
                  (humidity_average demo_tv (str_date demo_day) (connection demo_house) = Some NInf \<or>
                   (\<exists>a. humidity_average demo_tv (str_date demo_day) (connection demo_house) =
                          Some (Fin a) \<and> a < m_value m)) \<and>
                  map_option hour_of (DATETIME demo_tv (m_time_stamp m)) = Some h)
              (joined (connection demo_house)))"
    by (elim exE conjE)
  note c9 = c [THEN spec, of 9, unfolded demo_str_date demo_simps demo_average demo_hour_counts]
  note c10 = c [THEN spec, of 10, unfolded demo_str_date demo_simps demo_average demo_hour_counts]
  note c8 = c [THEN spec, of 8, unfolded demo_str_date demo_simps demo_average demo_hour_counts]
  have nine: "9 \<in> set hs" using c9 by simp
  have ten: "10 \<notin> set hs" using c10 by simp
  have eight: "8 \<notin> set hs" using c8 by simp
  from r nine ten eight have "\<exists>hs. fst (get_hours_when_humidity_above_average demo_tv refuse
      ''Bathroom'' demo_day demo_house) = Inr hs \<and> 9 \<in> set hs \<and> 10 \<notin> set hs \<and> 8 \<notin> set hs"
    by (intro exI [of _ hs] conjI)
  with demo_plain(1) show ?thesis by (intro conjI)
qed

text \<open>
  Claim C3, as stated, fails for a room name with a quote character. The name
  \<^verbatim>\<open>Bathroom' --\<close> ends the string literal after \<^verbatim>\<open>Bathroom\<close> and turns the quote
  of the statement into a comment; the statement that runs asks for the bathroom.
  Hour 9 is returned, and no room of the store has the name that was given, so no
  row qualifies for that name in any hour.
\<close>

theorem hours_quoted_name_counterexample:
  "(case fst (get_hours_when_humidity_above_average demo_tv refuse commented_name demo_day
             demo_house) of Inl e \<Rightarrow> False | Inr hs \<Rightarrow> 9 \<in> set hs) \<and>
   filter (\<lambda>(m, d, r). r_name r = commented_name) (joined (connection demo_house)) = []"
proof -
  from template_hours_explicit [OF demo_name_slots(1), of demo_tv refuse demo_day demo_house]
  obtain hs where
    r: "fst (get_hours_when_humidity_above_average demo_tv refuse commented_name demo_day
             demo_house) = Inr hs" and
    c: "\<forall>h. int h \<in> set hs \<longleftrightarrow>
        3 < length (filter
              (\<lambda>(m, d, r).
                  r_name r = ''Bathroom'' \<and> d_type d = ''Fuktighetssensor'' \<and>
                  DATE demo_tv (m_time_stamp m) \<noteq> None \<and>
                  DATE demo_tv (m_time_stamp m) = DATE demo_tv (str_date demo_day) \<and>
                  (humidity_average demo_tv (str_date demo_day) (connection demo_house) = Some NInf \<or>
                   (\<exists>a. humidity_average demo_tv (str_date demo_day) (connection demo_house) =
                          Some (Fin a) \<and> a < m_value m)) \<and>
                  map_option hour_of (DATETIME demo_tv (m_time_stamp m)) = Some h)
              (joined (connection demo_house)))"
    by (elim exE conjE)
  note c9 = c [THEN spec, of 9, unfolded demo_str_date demo_simps demo_average demo_hour_counts]
  have nine: "9 \<in> set hs" using c9 by simp
  have a: "(case fst (get_hours_when_humidity_above_average demo_tv refuse commented_name demo_day
             demo_house) of Inl e \<Rightarrow> False | Inr hs \<Rightarrow> 9 \<in> set hs)"
    using nine by (simp add: r)
  have b: "filter (\<lambda>(m, d, r). r_name r = commented_name) (joined (connection demo_house)) = []"
    by (simp add: demo_simps demo_joined commented_name_def)
  show ?thesis using a b by (intro conjI)
qed

subsection \<open>The threshold\<close>

text \<open>
  Claim C4, as amended. For every day and every store there is one threshold, the
  average that the engine computes in double precision over the measurements of
  device 21 whose date is the given day, and for every room name without a quote
  character and without a NUL character \<^verbatim>\<open>get_hours_when_humidity_above_average\<close>
  returns exactly the hours with more than three rows of a humidity sensor in a room
  of that name on that day whose value is greater than this one threshold. In the
  small house the threshold is 60 for the bathroom and for the kitchen; with it hour
  9 is returned for the bathroom and hour 8 is not, and nothing is returned for the
  kitchen, which has no humidity sensor.
\<close>

theorem humidity_threshold_fixed_device:
  "let T = sql_avg (map m_value
         (filter (\<lambda>m. m_device m = 21 \<and> DATE tv (m_time_stamp m) \<noteq> None \<and>
                      DATE tv (m_time_stamp m) = DATE tv (str_date day))
            (measurements (connection self))))
   in \<forall>room_name. plain_literal room_name \<longrightarrow>
     (\<exists>hs. fst (get_hours_when_humidity_above_average tv foreign room_name day self) = Inr hs \<and>
       (\<forall>h. int h \<in> set hs \<longleftrightarrow>
          3 < length (filter
                (\<lambda>(m, d, r).
                    r_name r = room_name \<and> d_type d = ''Fuktighetssensor'' \<and>
                    DATE tv (m_time_stamp m) \<noteq> None \<and>
                    DATE tv (m_time_stamp m) = DATE tv (str_date day) \<and>
                    (T = Some NInf \<or> (\<exists>a. T = Some (Fin a) \<and> a < m_value m)) \<and>
                    map_option hour_of (DATETIME tv (m_time_stamp m)) = Some h)
                (joined (connection self)))))"
  unfolding Let_def humidity_average_iff [symmetric]
  using template_hours_explicit [OF name_slot_plain] by blast

theorem humidity_threshold_fixed_device_witness:
  "plain_literal ''Bathroom'' \<and> plain_literal ''Kitchen'' \<and>
   sql_avg (map m_value
         (filter (\<lambda>m. m_device m = 21 \<and> DATE demo_tv (m_time_stamp m) \<noteq> None \<and>
                      DATE demo_tv (m_time_stamp m) = DATE demo_tv (str_date demo_day))
            (measurements (connection demo_house)))) = Some (Fin 60) \<and>
   (\<exists>hs. fst (get_hours_when_humidity_above_average demo_tv refuse ''Bathroom'' demo_day
             demo_house) = Inr hs \<and> 9 \<in> set hs \<and> 8 \<notin> set hs) \<and>
   (\<exists>hs. fst (get_hours_when_humidity_above_average demo_tv refuse ''Kitchen'' demo_day
             demo_house) = Inr hs \<and> 9 \<notin> set hs)"
proof -
  have avg: "sql_avg (map m_value
         (filter (\<lambda>m. m_device m = 21 \<and> DATE demo_tv (m_time_stamp m) \<noteq> None \<and>
                      DATE demo_tv (m_time_stamp m) = DATE demo_tv (str_date demo_day))
            (measurements (connection demo_house)))) = Some (Fin 60)"
    using demo_average by (simp only: humidity_average_iff demo_str_date demo_simps)
  note t = humidity_threshold_fixed_device [of demo_tv demo_day demo_house refuse,
      unfolded Let_def avg, THEN spec, THEN mp]
  from t [OF demo_plain(1)] obtain hs where
    r: "fst (get_hours_when_humidity_above_average demo_tv refuse ''Bathroom'' demo_day
             demo_house) = Inr hs" and
    c: "\<forall>h. int h \<in> set hs \<longleftrightarrow>
        3 < length (filter
              (\<lambda>(m, d, r).
                  r_name r = ''Bathroom'' \<and> d_type d = ''Fuktighetssensor'' \<and>
                  DATE demo_tv (m_time_stamp m) \<noteq> None \<and>
                  DATE demo_tv (m_time_stamp m) = DATE demo_tv (str_date demo_day) \<and>
                  (Some (Fin 60) = Some NInf \<or> (\<exists>a. Some (Fin 60) = Some (Fin a) \<and> a < m_value m)) \<and>
                  map_option hour_of (DATETIME demo_tv (m_time_stamp m)) = Some h)
              (joined (connection demo_house)))"
    by (elim exE conjE)
  from t [OF demo_plain(2)] obtain ks where
    r': "fst (get_hours_when_humidity_above_average demo_tv refuse ''Kitchen'' demo_day
             demo_house) = Inr ks" and
    c': "\<forall>h. int h \<in> set ks \<longleftrightarrow>
        3 < length (filter
              (\<lambda>(m, d, r).
                  r_name r = ''Kitchen'' \<and> d_type d = ''Fuktighetssensor'' \<and>
                  DATE demo_tv (m_time_stamp m) \<noteq> None \<and>
                  DATE demo_tv (m_time_stamp m) = DATE demo_tv (str_date demo_day) \<and>
                  (Some (Fin 60) = Some NInf \<or> (\<exists>a. Some (Fin 60) = Some (Fin a) \<and> a < m_value m)) \<and>
                  map_option hour_of (DATETIME demo_tv (m_time_stamp m)) = Some h)
              (joined (connection demo_house)))"
    by (elim exE conjE)
  note c9 = c [THEN spec, of 9, unfolded demo_str_date demo_simps demo_hour_counts]
  note c8 = c [THEN spec, of 8, unfolded demo_str_date demo_simps demo_hour_counts]
  note k9 = c' [THEN spec, of 9, unfolded demo_str_date demo_simps demo_hour_counts]
  have b: "\<exists>hs. fst (get_hours_when_humidity_above_average demo_tv refuse ''Bathroom'' demo_day
             demo_house) = Inr hs \<and> 9 \<in> set hs \<and> 8 \<notin> set hs"
    using r c9 c8 by (intro exI [of _ hs]) simp
  have k: "\<exists>hs. fst (get_hours_when_humidity_above_average demo_tv refuse ''Kitchen'' demo_day
             demo_house) = Inr hs \<and> 9 \<notin> set hs"
    using r' k9 by (intro exI [of _ ks]) simp
  show ?thesis using demo_plain avg b k by (intro conjI)
qed

text \<open>
  Claim C4, as stated, fails for a room name with a quote character. The name
  \<^verbatim>\<open>Bathroom' /*\<close> ends the string literal after \<^verbatim>\<open>Bathroom\<close> and opens a comment
  that is never closed, so the statement ends there: the device type, the day, the
  comparison with the average and the count are not part of it. The method returns
  the hour of every measurement in the bathroom, once per row. Hour 8 is among them,
  and the only row of that hour has the value 5, below the average 60 of device 21 on
  that day; for this name a counted row need not exceed the threshold.
\<close>

theorem humidity_threshold_quoted_name_counterexample:
  "fst (get_hours_when_humidity_above_average demo_tv refuse cutting_name demo_day demo_house) =
     Inr [8, 9, 9, 9, 9, 10, 10, 10] \<and>
   humidity_average demo_tv (str_date demo_day) (connection demo_house) = Some (Fin 60) \<and>
   filter (\<lambda>(m, d, r). map_option hour_of (DATETIME demo_tv (m_time_stamp m)) = Some 8 \<and>
             60 < m_value m) (joined (connection demo_house)) = []"
proof -
  have a: "fst (get_hours_when_humidity_above_average demo_tv refuse cutting_name demo_day
      demo_house) = Inr [8, 9, 9, 9, 9, 10, 10, 10]"
    by (simp add: get_hours_when_humidity_above_average_def humidity_statement_def
        demo_name_slots cut_query_def demo_simps demo_joined fetchall_def execute_def
        hours_def STRFTIME_H_def DATETIME_def demo_tv_simps hour_of_def text_val_def
        py_index_def py_int_pad)
  have b: "humidity_average demo_tv (str_date demo_day) (connection demo_house) = Some (Fin 60)"
    by (simp only: demo_str_date demo_simps demo_average)
  have c: "filter (\<lambda>(m, d, r). map_option hour_of (DATETIME demo_tv (m_time_stamp m)) = Some 8 \<and>
             60 < m_value m) (joined (connection demo_house)) = []"
    by (simp add: demo_simps demo_joined DATETIME_def demo_tv_simps hour_of_def)
  show ?thesis using a b c by (intro conjI)
qed

end
